theory Spec2Isabelle
  imports Complex_Main "HOL-Library.Multiset"
begin

section \<open>Python floats\<close>

text \<open>
  A Python float is an IEEE 754 binary64 number. A finite float is modelled by the real
  number it denotes. An arithmetic operation computes the exact result and rounds it to
  the nearest float, a tie going to the even significand; the same rounding turns a
  decimal literal such as \<^verbatim>\<open>0.6\<close> into the float it denotes. The significand has 53
  bits, the exponent of a normal number runs from -1022 to 1023 and smaller numbers are
  subnormal. Overflow to infinity is outside the model: the exponent is capped at 1023.
\<close>

definition round_half_even :: "real \<Rightarrow> int" where
  "round_half_even y =
     (let f = \<lfloor>y\<rfloor>; d = y - of_int f
      in if d < 1 / 2 then f
         else if 1 / 2 < d then f + 1
         else if even f then f else f + 1)"

definition pow2 :: "int \<Rightarrow> real" where
  "pow2 e = (if 0 \<le> e then 2 ^ nat e else 1 / 2 ^ nat (- e))"

text \<open>The binary exponent of a positive number, searched upwards or downwards from 0.\<close>

function exponent_up :: "real \<Rightarrow> int \<Rightarrow> int" where
  "exponent_up a e = (if e < 1023 \<and> pow2 (e + 1) \<le> a then exponent_up a (e + 1) else e)"
  by pat_completeness auto
termination
  by (relation "measure (\<lambda>(a, e). nat (1023 - e))") auto

function exponent_down :: "real \<Rightarrow> int \<Rightarrow> int" where
  "exponent_down a e = (if - 1022 < e \<and> a < pow2 e then exponent_down a (e - 1) else e)"
  by pat_completeness auto
termination
  by (relation "measure (\<lambda>(a, e). nat (e + 1022))") auto

declare exponent_up.simps [simp del]
declare exponent_down.simps [simp del]

definition float_exponent :: "real \<Rightarrow> int" where
  "float_exponent a = (if 1 \<le> a then exponent_up a 0 else exponent_down a 0)"

definition round_float :: "real \<Rightarrow> real" where
  "round_float x =
     (if x = 0 then 0
      else (let ulp = pow2 (float_exponent \<bar>x\<bar> - 52)
            in of_int (round_half_even (x / ulp)) * ulp))"

definition fadd :: "real \<Rightarrow> real \<Rightarrow> real" where
  "fadd x y = round_float (x + y)"

definition fsub :: "real \<Rightarrow> real \<Rightarrow> real" where
  "fsub x y = round_float (x - y)"

definition fmul :: "real \<Rightarrow> real \<Rightarrow> real" where
  "fmul x y = round_float (x * y)"

definition fdiv :: "real \<Rightarrow> real \<Rightarrow> real" where
  "fdiv x y = round_float (x / y)"

text \<open>
  A float that may be infinite or not a number, for the values that \<^verbatim>\<open>float(...)\<close> makes
  of an external reply and that the code passes on unchecked.
\<close>

datatype pyfloat = Finite real | PosInf | NegInf | NaN


section \<open>Python exceptions and results\<close>

text \<open>
  Every \<^verbatim>\<open>raise\<close> of the service is a value. The endpoint distinguishes exactly three
  classes of exception (\<^verbatim>\<open>ValueError\<close>, \<^verbatim>\<open>HTTPException\<close>, anything else), so the model
  keeps these three, each with its message.
\<close>

datatype py_exception =
    ValueError string
  | HTTPException nat string
  | OtherException string

text \<open>Sequencing of fallible steps: the first exception aborts the rest of a \<^verbatim>\<open>try\<close> body.\<close>

definition and_then :: "py_exception + 'a \<Rightarrow> ('a \<Rightarrow> py_exception + 'b) \<Rightarrow> py_exception + 'b" where
  "and_then r f = (case r of Inl e \<Rightarrow> Inl e | Inr x \<Rightarrow> f x)"

section \<open>services/ml.py: features, ensemble training\<close>

text \<open>
  A \<^verbatim>\<open>pd.Series\<close> with a \<^verbatim>\<open>DatetimeIndex\<close> is a list of (timestamp, value) pairs in index
  order; the timestamp is an integer instant, a missing value (NaN) is \<open>None\<close> and a
  present value is the real number the float denotes.
\<close>

type_synonym series = "(int \<times> real option) list"

fun dropna :: "series \<Rightarrow> (int \<times> real) list" where
  "dropna [] = []"
| "dropna ((t, None) # s) = dropna s"
| "dropna ((t, Some x) # s) = (t, x) # dropna s"

text \<open>A supervised frame: the feature rows \<open>X\<close> and the targets \<open>y\<close>.\<close>

type_synonym design = "real list list \<times> real list"

text \<open>
  \<^verbatim>\<open>create_simple_features\<close>: lag windows over the clean series. The third component is
  the lag count actually used, which is \<^verbatim>\<open>X.shape[1]\<close>.
\<close>

definition create_simple_features :: "series \<Rightarrow> nat \<Rightarrow> design \<times> nat" where
  "create_simple_features s lags =
     (let clean_series = map snd (dropna s);
          n = length clean_series;
          lags' = (if n < lags + 1 then max 1 (n div 2) else lags)
      in ((map (\<lambda>i. take lags' (drop (i - lags') clean_series)) [lags'..<n],
           map (\<lambda>i. clean_series ! i) [lags'..<n]),
          lags'))"

text \<open>
  The regression library and the pandas feature table are external to the repository.
  They enter as parameters: \<open>advanced_table\<close> stands for the lag, rolling, calendar and
  trend columns built by \<^verbatim>\<open>create_advanced_features\<close> once enough data is present;
  \<open>rf_fit\<close>, \<open>gb_fit\<close> and \<open>rf_fallback_fit\<close> are the three regressor constructions
  followed by \<^verbatim>\<open>fit\<close>; \<open>score\<close> is the training score \<^verbatim>\<open>model.score(X, y)\<close>. Each may raise.
\<close>

record 'm sklearn =
  advanced_table :: "(int \<times> real) list \<Rightarrow> nat \<Rightarrow> py_exception + design"
  rf_fit :: "design \<Rightarrow> py_exception + 'm"
  gb_fit :: "design \<Rightarrow> py_exception + 'm"
  rf_fallback_fit :: "design \<Rightarrow> py_exception + 'm"
  score :: "'m \<Rightarrow> design \<Rightarrow> py_exception + real"

definition create_advanced_features ::
    "'m sklearn \<Rightarrow> series \<Rightarrow> nat \<Rightarrow> py_exception + design" where
  "create_advanced_features sk s lags =
     (if length (dropna s) < lags + 10 then Inr (fst (create_simple_features s lags))
      else advanced_table sk (dropna s) lags)"

text \<open>The dictionary returned by training: both regressors and the weight pair.\<close>

record 'm models =
  rf :: 'm
  gb :: "'m option"
  weights :: "real \<times> real"

text \<open>
  Lines 159 to 165: the weight pair from the two training scores, in float arithmetic.
\<close>

definition ensemble_weights :: "real \<Rightarrow> real \<Rightarrow> real \<times> real" where
  "ensemble_weights rf_score gb_score =
     (let total_score = fadd rf_score gb_score
      in if total_score > 0 then (fdiv rf_score total_score, fdiv gb_score total_score)
         else (0.5, 0.5))"

text \<open>The body of the \<^verbatim>\<open>try\<close> block of \<^verbatim>\<open>train_ensemble_model\<close>.\<close>

definition train_ensemble_try ::
    "'m sklearn \<Rightarrow> series \<Rightarrow> nat \<Rightarrow> py_exception + ('m models \<times> nat)" where
  "train_ensemble_try sk s lags =
     and_then
       (if length (dropna s) > 100
        then and_then (create_advanced_features sk s lags) (\<lambda>Xy. Inr (Xy, lags))
        else Inr (create_simple_features s lags))
       (\<lambda>(Xy, lags').
          if length (fst Xy) < 10 then Inl (ValueError ''Not enough data for training'')
          else
            and_then (rf_fit sk Xy) (\<lambda>rf_model.
            and_then (gb_fit sk Xy) (\<lambda>gb_model.
            and_then (score sk rf_model Xy) (\<lambda>rf_score.
            and_then (score sk gb_model Xy) (\<lambda>gb_score.
              Inr (\<lparr>rf = rf_model, gb = Some gb_model,
                      weights = ensemble_weights rf_score gb_score\<rparr>, lags'))))))"

text \<open>The \<^verbatim>\<open>except\<close> block: a single regressor on the simple features, weights (1, 0).\<close>

definition train_ensemble_fallback ::
    "'m sklearn \<Rightarrow> series \<Rightarrow> nat \<Rightarrow> py_exception + ('m models \<times> nat)" where
  "train_ensemble_fallback sk s lags =
     (let (Xy, lags') = create_simple_features s lags
      in and_then (rf_fallback_fit sk Xy) (\<lambda>model.
           Inr (\<lparr>rf = model, gb = None, weights = (1.0, 0.0)\<rparr>, lags')))"

definition train_ensemble_model ::
    "'m sklearn \<Rightarrow> series \<Rightarrow> nat \<Rightarrow> py_exception + ('m models \<times> nat)" where
  "train_ensemble_model sk s lags =
     (case train_ensemble_try sk s lags of
        Inr r \<Rightarrow> Inr r
      | Inl e \<Rightarrow> train_ensemble_fallback sk s lags)"


section \<open>services/geocode.py: free-text resolution\<close>

record location =
  loc_name :: string
  loc_country :: "string option"
  loc_latitude :: pyfloat
  loc_longitude :: pyfloat
  loc_elevation :: "pyfloat option"

text \<open>
  A geocoder takes the text to look up and returns a place, nothing, or raises. The four
  provider functions of the module do HTTP and answer \<^verbatim>\<open>None\<close> on any failure; the loop of
  \<^verbatim>\<open>geocode_location\<close> guards each call with its own \<^verbatim>\<open>try\<close> all the same, so a raising
  provider is part of the model. The paid provider also takes the API key.
\<close>

type_synonym geocoder = "string \<Rightarrow> py_exception + location option"

record geocode_providers =
  geocode_google_maps :: "string \<Rightarrow> geocoder"
  geocode_openmeteo :: geocoder
  geocode_nominatim :: geocoder
  geocode_geocodexyz :: geocoder

text \<open>
  A text is a list of code points below 256. \<^verbatim>\<open>str.strip()\<close> removes the characters for
  which \<^verbatim>\<open>isspace\<close> holds; below 256 these are the twelve that follow.
\<close>

definition isspace :: "char \<Rightarrow> bool" where
  "isspace c = (c \<in> set [CHR 0x09, CHR 0x0A, CHR 0x0B, CHR 0x0C, CHR 0x0D,
                           CHR 0x1C, CHR 0x1D, CHR 0x1E, CHR 0x1F, CHR 0x20,
                           CHR 0x85, CHR 0xA0])"

definition strip :: "string \<Rightarrow> string" where
  "strip s = rev (dropWhile isspace (rev (dropWhile isspace s)))"

definition country_suffixes :: "string list" where
  "country_suffixes = [''India'', ''USA'', ''United States'', ''UK'', ''United Kingdom'',
                       ''Canada'', ''Australia'', ''Germany'', ''France'']"

definition try_with_variations :: "string \<Rightarrow> string list" where
  "try_with_variations location_name =
     (let location_clean = strip location_name
      in [strip location_name] @
         (if CHR 0x2C \<notin> set location_clean
          then map (\<lambda>c. location_clean @ '', '' @ c) country_suffixes
          else []))"

text \<open>The list of (label, function) pairs, the paid provider first when a key is given.\<close>

definition geocoders :: "geocode_providers \<Rightarrow> string option \<Rightarrow> (string \<times> geocoder) list" where
  "geocoders ps google_api_key =
     (case google_api_key of
        None \<Rightarrow> []
      | Some k \<Rightarrow> if k = [] then [] else [(''Google Maps'', geocode_google_maps ps k)]) @
     [(''Open-Meteo'', geocode_openmeteo ps),
      (''Nominatim'', geocode_nominatim ps),
      (''GeoCode.xyz'', geocode_geocodexyz ps)]"

text \<open>The inner loop: one variation, every geocoder in order; an exception is logged and skipped.\<close>

fun try_geocoders :: "(string \<times> geocoder) list \<Rightarrow> string \<Rightarrow> location option" where
  "try_geocoders [] variation = None"
| "try_geocoders ((geocoder_name, geocoder_func) # gs) variation =
     (case geocoder_func variation of
        Inr (Some result) \<Rightarrow> Some result
      | Inr None \<Rightarrow> try_geocoders gs variation
      | Inl e \<Rightarrow> try_geocoders gs variation)"

text \<open>The outer loop over the variations.\<close>

fun try_variations :: "(string \<times> geocoder) list \<Rightarrow> string list \<Rightarrow> location option" where
  "try_variations gs [] = None"
| "try_variations gs (variation # vs) =
     (case try_geocoders gs variation of
        Some result \<Rightarrow> Some result
      | None \<Rightarrow> try_variations gs vs)"

definition not_found_message :: "string \<Rightarrow> string" where
  "not_found_message location_clean =
     ''Could not find location '' @ [CHR 0x27] @ location_clean @ [CHR 0x27] @
     '' using any geocoding service.'' @ [CHR 0x0A, CHR 0x0A] @
     ''Please try:'' @ [CHR 0x0A] @
     ''- A more specific address (e.g., '' @ [CHR 0x27] @ ''Pune, India'' @ [CHR 0x27] @
     '' or '' @ [CHR 0x27] @ ''Baner, Pune'' @ [CHR 0x27] @ '')'' @ [CHR 0x0A] @
     ''- Including country name (e.g., '' @ [CHR 0x27] @ ''Pune, India'' @ [CHR 0x27] @ '')'' @
     [CHR 0x0A] @
     ''- Checking spelling'' @ [CHR 0x0A] @
     ''- Trying a nearby landmark or city''"

definition geocode_location ::
    "geocode_providers \<Rightarrow> string \<Rightarrow> string option \<Rightarrow> py_exception + location" where
  "geocode_location ps location_name google_api_key =
     (let location_clean = strip location_name
      in if location_clean = [] then Inl (ValueError ''Location name cannot be empty'')
         else
           (case try_variations (geocoders ps google_api_key) (try_with_variations location_clean) of
              Some result \<Rightarrow> Inr result
            | None \<Rightarrow> Inl (ValueError (not_found_message location_clean))))"

subsection \<open>Blending\<close>

text \<open>
  Line 319 on one pair of values, \<^verbatim>\<open>alpha * ml + (1 - alpha) * api\<close> in float arithmetic;
  a missing operand gives a missing result.
\<close>

text \<open>The float that the literal \<^verbatim>\<open>0.6\<close> denotes, the weight the endpoint passes.\<close>

definition float_0_6 :: real where
  "float_0_6 = 5404319552844595 / 9007199254740992"

definition blend_value :: "real \<Rightarrow> real option \<Rightarrow> real option \<Rightarrow> real option" where
  "blend_value alpha m a =
     (case (m, a) of
        (Some x, Some y) \<Rightarrow> Some (fadd (fmul alpha x) (fmul (fsub 1 alpha) y))
      | _ \<Rightarrow> None)"

text \<open>\<^verbatim>\<open>reindex\<close> on a series with unique labels: the value at a label.\<close>

definition value_at :: "series \<Rightarrow> int \<Rightarrow> real option" where
  "value_at s t = (case map_of s t of Some v \<Rightarrow> v | None \<Rightarrow> None)"

text \<open>
  \<^verbatim>\<open>blend_ml_and_api\<close> on two series indexed by time. When the two indexes differ, the
  values are aligned on the sorted common labels, and \<^verbatim>\<open>reindex\<close> raises on an index with
  duplicate labels; when they are the same, the values are combined position by position.
\<close>

definition blend_ml_and_api :: "series \<Rightarrow> series \<Rightarrow> real \<Rightarrow> py_exception + series" where
  "blend_ml_and_api ml_series api_series alpha =
     (let ml_time = map fst ml_series; api_time = map fst api_series
      in if length ml_time \<noteq> length api_time \<or> ml_time \<noteq> api_time
         then (let common_time = sort (filter (\<lambda>t. t \<in> set api_time) (remdups ml_time))
               in if \<not> distinct ml_time \<or> \<not> distinct api_time
                  then Inl (ValueError ''cannot reindex on an axis with duplicate labels'')
                  else Inr (map (\<lambda>t. (t, blend_value alpha (value_at ml_series t)
                                                 (value_at api_series t))) common_time))
         else Inr (map (\<lambda>(m, a). (fst m, blend_value alpha (snd m) (snd a)))
                     (zip ml_series api_series)))"


subsection \<open>A small training run\<close>

text \<open>
  Twenty clean hourly values, and a regression library whose two fitted models report
  the given training scores; the fitted model is \<open>True\<close> for the forest and \<open>False\<close>
  for the boosted one. As the library does, every fit rejects a design without rows.
\<close>

definition c3_series :: series where
  "c3_series = map (\<lambda>i. (int i, Some (real i))) [0..<20]"

definition fit_unless_empty :: "bool \<Rightarrow> design \<Rightarrow> py_exception + bool" where
  "fit_unless_empty model Xy =
     (if fst Xy = [] then Inl (ValueError ''Found array with 0 sample(s)'') else Inr model)"

definition c3_sklearn :: "real \<Rightarrow> real \<Rightarrow> bool sklearn" where
  "c3_sklearn rf_score gb_score =
     \<lparr>advanced_table = (\<lambda>s l. Inr ([], [])),
      rf_fit = fit_unless_empty True, gb_fit = fit_unless_empty False,
      rf_fallback_fit = fit_unless_empty True,
      score = (\<lambda>m Xy. Inr (if m then rf_score else gb_score))\<rparr>"

text \<open>The floats that the literals 0.4, 31.8, 0.529 and 0.7537 denote.\<close>

definition float_0_4 :: real where
  "float_0_4 = 3602879701896397 / 9007199254740992"

definition float_31_8 :: real where
  "float_31_8 = 8950904259398861 / 281474976710656"

definition float_0_529 :: real where
  "float_0_529 = 4764808405757985 / 9007199254740992"

definition float_0_7537 :: real where
  "float_0_7537 = 3394363039149143 / 4503599627370496"

subsection \<open>Attempt orders\<close>

text \<open>
  The attempts of \<^verbatim>\<open>geocode_location\<close> laid out as one list, variation by variation and
  within a variation provider by provider, and the first place found in such a list.
\<close>

definition attempts_by_variation ::
    "(string \<times> geocoder) list \<Rightarrow> string list \<Rightarrow> (py_exception + location option) list" where
  "attempts_by_variation gs vs = concat (map (\<lambda>v. map (\<lambda>g. snd g v) gs) vs)"

fun first_found :: "(py_exception + location option) list \<Rightarrow> location option" where
  "first_found [] = None"
| "first_found (Inr (Some result) # rs) = Some result"
| "first_found (r # rs) = first_found rs"

text \<open>
  The order as the specification words it: provider by provider in priority order, each
  provider with the original text and then every country-suffixed variant.
\<close>

definition attempts_by_provider ::
    "(string \<times> geocoder) list \<Rightarrow> string list \<Rightarrow> (py_exception + location option) list" where
  "attempts_by_provider gs vs = concat (map (\<lambda>g. map (\<lambda>v. snd g v) vs) gs)"

subsection \<open>Two providers that disagree\<close>

definition place_a :: location where
  "place_a = \<lparr>loc_name = ''Springfield'', loc_country = Some ''India'',
              loc_latitude = Finite 12.5, loc_longitude = Finite 77.25,
              loc_elevation = None\<rparr>"

definition place_b :: location where
  "place_b = \<lparr>loc_name = ''Springfield'', loc_country = Some ''United States'',
              loc_latitude = Finite 39.75, loc_longitude = Finite (- 89.5),
              loc_elevation = Some (Finite 180)\<rparr>"

text \<open>
  The first free provider knows the place only with the suffix ", India"; the second
  free provider knows the bare name; the other two find nothing.
\<close>

definition two_providers :: geocode_providers where
  "two_providers =
     \<lparr>geocode_google_maps = (\<lambda>k q. Inr None),
      geocode_openmeteo = (\<lambda>q. if q = ''Springfield, India'' then Inr (Some place_a) else Inr None),
      geocode_nominatim = (\<lambda>q. if q = ''Springfield'' then Inr (Some place_b) else Inr None),
      geocode_geocodexyz = (\<lambda>q. Inr None)\<rparr>"

section \<open>Number formatting and rounding\<close>

text \<open>
  Python rounds a float to a number of decimals, in \<^verbatim>\<open>round(x, n)\<close> and in the format
  \<^verbatim>\<open>{x:.4f}\<close>, from its exact value to the nearest decimal, a tie going to the even
  neighbour (\<open>round_half_even\<close>).
\<close>

definition digit_char :: "nat \<Rightarrow> char" where
  "digit_char d = ''0123456789'' ! d"

function show_nat :: "nat \<Rightarrow> string" where
  "show_nat n = (if n < 10 then [digit_char n] else show_nat (n div 10) @ [digit_char (n mod 10)])"
  by pat_completeness auto
termination
  by (relation "measure id") auto

declare show_nat.simps [simp del]

text \<open>
  \<^verbatim>\<open>f"{x:.4f}"\<close> is \<open>format_fixed 4 x\<close>: the sign, the integer part, a point and exactly
  that many decimals.
\<close>

definition format_fixed :: "nat \<Rightarrow> real \<Rightarrow> string" where
  "format_fixed ndigits x =
     (let scaled = nat (round_half_even (\<bar>x\<bar> * 10 ^ ndigits));
          int_part = show_nat (scaled div 10 ^ ndigits);
          frac_part = show_nat (scaled mod 10 ^ ndigits)
      in (if x < 0 then ''-'' else '''') @ int_part @ ''.'' @
         replicate (ndigits - length frac_part) (CHR ''0'') @ frac_part)"

text \<open>
  Reading a decimal back: the digits, and the number that a run of digits denotes. They
  state what a formatted coordinate says.
\<close>

definition is_digit :: "char \<Rightarrow> bool" where
  "is_digit c = (c \<in> set ''0123456789'')"

definition digit_value :: "char \<Rightarrow> nat" where
  "digit_value c = of_char c - 48"

definition read_nat :: "string \<Rightarrow> nat" where
  "read_nat s = foldl (\<lambda>n c. 10 * n + digit_value c) 0 s"

section \<open>services/reverse\_geocode.py: coordinates to a display name\<close>

record place =
  place_name :: string
  place_display_name :: string
  place_country :: "string option"
  place_city :: "string option"
  place_latitude :: real
  place_longitude :: real

text \<open>
  A reverse geocoder takes the coordinates and returns a place, nothing, or raises; the
  paid one takes the key as well. As for the forward direction, the provider functions
  answer \<^verbatim>\<open>None\<close> on their own failures and the loop still guards every call.
\<close>

type_synonym reverse_geocoder = "real \<Rightarrow> real \<Rightarrow> py_exception + place option"

record reverse_providers =
  reverse_geocode_nominatim :: reverse_geocoder
  reverse_geocode_openmeteo :: reverse_geocoder
  reverse_geocode_google_maps :: "real \<Rightarrow> real \<Rightarrow> string \<Rightarrow> py_exception + place option"

text \<open>
  The list \<^verbatim>\<open>geocoders\<close> of the function: each entry is the label and the outcome of its
  call. The paid provider is inserted at the front when a key is given, and the search
  provider is appended last.
\<close>

definition reverse_geocoders ::
    "reverse_providers \<Rightarrow> real \<Rightarrow> real \<Rightarrow> string option \<Rightarrow>
       (string \<times> (py_exception + place option)) list" where
  "reverse_geocoders rp lat lon google_api_key =
     (case google_api_key of
        None \<Rightarrow> []
      | Some k \<Rightarrow> if k = [] then []
                  else [(''Google Maps'', reverse_geocode_google_maps rp lat lon k)]) @
     [(''Nominatim'', reverse_geocode_nominatim rp lat lon)] @
     [(''Open-Meteo'', reverse_geocode_openmeteo rp lat lon)]"

fun try_reverse_geocoders :: "(string \<times> (py_exception + place option)) list \<Rightarrow> place option" where
  "try_reverse_geocoders [] = None"
| "try_reverse_geocoders ((geocoder_name, outcome) # gs) =
     (case outcome of
        Inr (Some result) \<Rightarrow> Some result
      | Inr None \<Rightarrow> try_reverse_geocoders gs
      | Inl e \<Rightarrow> try_reverse_geocoders gs)"

definition reverse_geocode ::
    "reverse_providers \<Rightarrow> real \<Rightarrow> real \<Rightarrow> string option \<Rightarrow> py_exception + place" where
  "reverse_geocode rp lat lon google_api_key =
     (case try_reverse_geocoders (reverse_geocoders rp lat lon google_api_key) of
        Some result \<Rightarrow> Inr result
      | None \<Rightarrow>
          Inr \<lparr>place_name = format_fixed 4 lat @ '', '' @ format_fixed 4 lon,
               place_display_name = format_fixed 4 lat @ '', '' @ format_fixed 4 lon,
               place_country = None,
               place_city = None,
               place_latitude = lat,
               place_longitude = lon\<rparr>)"

text \<open>Providers that all fail: one raises, one finds nothing, one times out.\<close>

definition failing_reverse_providers :: reverse_providers where
  "failing_reverse_providers =
     \<lparr>reverse_geocode_nominatim = (\<lambda>lat lon. Inr None),
      reverse_geocode_openmeteo = (\<lambda>lat lon. Inl (OtherException ''timeout'')),
      reverse_geocode_google_maps = (\<lambda>lat lon k. Inl (ValueError ''bad response''))\<rparr>"

section \<open>services/geocode\_autocomplete.py: suggestions\<close>

text \<open>
  A suggestion dictionary. Each of the three provider functions stores
  \<^verbatim>\<open>float(...)\<close> values for the coordinates, so a suggestion always carries both.
\<close>

record suggestion =
  sug_display_name :: string
  sug_name :: string
  sug_country :: "string option"
  sug_latitude :: real
  sug_longitude :: real
  sug_source :: string

text \<open>Python text helpers: \<^verbatim>\<open>a or b\<close> on strings, \<^verbatim>\<open>", ".join\<close>, \<^verbatim>\<open>split(",")[0]\<close>, \<^verbatim>\<open>upper\<close>.\<close>

definition str_or :: "string \<Rightarrow> string \<Rightarrow> string" where
  "str_or a b = (if a \<noteq> [] then a else b)"

fun join_comma :: "string list \<Rightarrow> string" where
  "join_comma [] = []"
| "join_comma [p] = p"
| "join_comma (p # ps) = p @ '', '' @ join_comma ps"

definition before_comma :: "string \<Rightarrow> string" where
  "before_comma s = takeWhile (\<lambda>c. c \<noteq> CHR 0x2C) s"

definition upper_char :: "char \<Rightarrow> char" where
  "upper_char c =
     (let n = of_char c :: nat in if 97 \<le> n \<and> n \<le> 122 then char_of (n - 32) else c)"

definition upper :: "string \<Rightarrow> string" where
  "upper s = map upper_char s"

subsection \<open>What the providers answer\<close>

text \<open>
  The decoded JSON of each provider, reduced to the fields the module reads. A text or
  number field that is absent is the empty string or \<open>None\<close>.
\<close>

record om_result =
  om_name :: string
  om_country :: string
  om_admin1 :: string
  om_latitude :: "real option"
  om_longitude :: "real option"

text \<open>
  The second provider sends coordinates as text: absent or empty, text that \<^verbatim>\<open>float\<close>
  rejects, or a number.
\<close>

datatype coord_text = Absent | NotANumber | Numeric real

record nominatim_item =
  nm_lat :: coord_text
  nm_lon :: coord_text
  nm_display_name :: string
  nm_city :: string
  nm_town :: string
  nm_village :: string
  nm_country :: string
  nm_country_code :: string

text \<open>
  The paid provider: a prediction, and the outcome of its details request, which raises,
  yields nothing usable (status other than 200, or not OK), or yields a name and a location.
\<close>

record place_details =
  det_name :: string
  det_lat :: "real option"
  det_lng :: "real option"

record prediction =
  pred_description :: string
  pred_details :: "py_exception + place_details option"

text \<open>
  The three HTTP exchanges. Each takes the query and what else the request carries, and
  raises or returns the decoded answer; for the paid provider \<open>None\<close> is an answer whose
  status is not OK.
\<close>

record autocomplete_http =
  search_openmeteo :: "string \<Rightarrow> nat \<Rightarrow> py_exception + om_result list"
  search_nominatim :: "string \<Rightarrow> nat \<Rightarrow> py_exception + nominatim_item list"
  search_google_maps :: "string \<Rightarrow> string \<Rightarrow> py_exception + prediction list option"

subsection \<open>The provider functions\<close>

definition openmeteo_suggestion :: "om_result \<Rightarrow> suggestion option" where
  "openmeteo_suggestion result =
     (case (om_latitude result, om_longitude result) of
        (Some lat, Some lon) \<Rightarrow>
          Some \<lparr>sug_display_name =
                   join_comma ([om_name result] @
                     (if om_admin1 result \<noteq> [] then [om_admin1 result] else []) @
                     (if om_country result \<noteq> [] then [om_country result] else [])),
                 sug_name = om_name result,
                 sug_country = Some (om_country result),
                 sug_latitude = lat,
                 sug_longitude = lon,
                 sug_source = ''Open-Meteo''\<rparr>
      | _ \<Rightarrow> None)"

definition autocomplete_openmeteo :: "autocomplete_http \<Rightarrow> string \<Rightarrow> nat \<Rightarrow> suggestion list" where
  "autocomplete_openmeteo http query limit =
     (case search_openmeteo http query limit of
        Inl e \<Rightarrow> []
      | Inr results \<Rightarrow> List.map_filter openmeteo_suggestion (take limit results))"

text \<open>
  The loop of \<^verbatim>\<open>autocomplete_nominatim\<close>: an item without both coordinates is skipped, and
  a coordinate that is not a number raises out of the loop.
\<close>

fun nominatim_suggestions :: "nominatim_item list \<Rightarrow> py_exception + suggestion list" where
  "nominatim_suggestions [] = Inr []"
| "nominatim_suggestions (item # items) =
     (case (nm_lat item, nm_lon item) of
        (Absent, _) \<Rightarrow> nominatim_suggestions items
      | (_, Absent) \<Rightarrow> nominatim_suggestions items
      | (Numeric lat, Numeric lon) \<Rightarrow>
          and_then (nominatim_suggestions items) (\<lambda>rest.
            Inr (\<lparr>sug_display_name = nm_display_name item,
                   sug_name = str_or (nm_city item) (str_or (nm_town item)
                                (str_or (nm_village item) (before_comma (nm_display_name item)))),
                   sug_country = Some (str_or (nm_country item) (upper (nm_country_code item))),
                   sug_latitude = lat,
                   sug_longitude = lon,
                   sug_source = ''Nominatim''\<rparr> # rest))
      | _ \<Rightarrow> Inl (ValueError ''could not convert string to float''))"

definition autocomplete_nominatim :: "autocomplete_http \<Rightarrow> string \<Rightarrow> nat \<Rightarrow> suggestion list" where
  "autocomplete_nominatim http query limit =
     (case and_then (search_nominatim http query limit)
             (\<lambda>data. nominatim_suggestions (take limit data)) of
        Inl e \<Rightarrow> []
      | Inr suggestions \<Rightarrow> suggestions)"

text \<open>
  The loop of \<^verbatim>\<open>autocomplete_google_maps\<close>. A location counts only when latitude and
  longitude are both present and non-zero, which is Python truthiness of a number.
\<close>

fun google_suggestions :: "prediction list \<Rightarrow> py_exception + suggestion list" where
  "google_suggestions [] = Inr []"
| "google_suggestions (pred # preds) =
     (case pred_details pred of
        Inl e \<Rightarrow> Inl e
      | Inr None \<Rightarrow> google_suggestions preds
      | Inr (Some result) \<Rightarrow>
          (case (det_lat result, det_lng result) of
             (Some lat, Some lng) \<Rightarrow>
               if lat \<noteq> 0 \<and> lng \<noteq> 0
               then and_then (google_suggestions preds) (\<lambda>rest.
                      Inr (\<lparr>sug_display_name = pred_description pred,
                             sug_name = str_or (det_name result)
                                          (before_comma (pred_description pred)),
                             sug_country = None,
                             sug_latitude = lat,
                             sug_longitude = lng,
                             sug_source = ''Google Maps''\<rparr> # rest))
               else google_suggestions preds
           | _ \<Rightarrow> google_suggestions preds))"

definition autocomplete_google_maps ::
    "autocomplete_http \<Rightarrow> string \<Rightarrow> string option \<Rightarrow> nat \<Rightarrow> suggestion list" where
  "autocomplete_google_maps http query api_key limit =
     (case api_key of
        None \<Rightarrow> []
      | Some k \<Rightarrow>
          if k = [] then []
          else (case search_google_maps http query k of
                  Inl e \<Rightarrow> []
                | Inr None \<Rightarrow> []
                | Inr (Some predictions) \<Rightarrow>
                    (case google_suggestions (take limit predictions) of
                       Inl e \<Rightarrow> []
                     | Inr suggestions \<Rightarrow> suggestions)))"

subsection \<open>Combining and deduplicating\<close>

text \<open>\<^verbatim>\<open>round(x, n)\<close> on exact reals, and the deduplication key of a suggestion.\<close>

definition py_round :: "real \<Rightarrow> nat \<Rightarrow> real" where
  "py_round x ndigits = of_int (round_half_even (x * 10 ^ ndigits)) / 10 ^ ndigits"

definition coord_key :: "suggestion \<Rightarrow> real \<times> real" where
  "coord_key s = (py_round (sug_latitude s) 3, py_round (sug_longitude s) 3)"

text \<open>
  The list \<^verbatim>\<open>all_suggestions\<close>: the first provider always, the second only while fewer
  than \<open>limit\<close> suggestions are collected, the paid one only with a key and while fewer
  than \<open>limit\<close> are collected.
\<close>

definition all_suggestions ::
    "autocomplete_http \<Rightarrow> string \<Rightarrow> nat \<Rightarrow> string option \<Rightarrow> suggestion list" where
  "all_suggestions http query_clean limit google_api_key =
     (let all1 = autocomplete_openmeteo http query_clean limit;
          all2 = (if length all1 < limit
                  then all1 @ autocomplete_nominatim http query_clean limit else all1);
          all3 = (if google_api_key \<noteq> None \<and> google_api_key \<noteq> Some [] \<and> length all2 < limit
                  then all2 @ autocomplete_google_maps http query_clean google_api_key limit
                  else all2)
      in all3)"

text \<open>The deduplication loop, with its two accumulators.\<close>

fun deduplicate ::
    "suggestion list \<Rightarrow> nat \<Rightarrow> suggestion list \<Rightarrow> (real \<times> real) set \<Rightarrow> suggestion list" where
  "deduplicate [] limit unique_suggestions seen_coords = unique_suggestions"
| "deduplicate (s # rest) limit unique_suggestions seen_coords =
     (if coord_key s \<notin> seen_coords
      then (if length (unique_suggestions @ [s]) \<ge> limit
            then unique_suggestions @ [s]
            else deduplicate rest limit (unique_suggestions @ [s])
                   (insert (coord_key s) seen_coords))
      else deduplicate rest limit unique_suggestions seen_coords)"

definition get_autocomplete_suggestions ::
    "autocomplete_http \<Rightarrow> string \<Rightarrow> nat \<Rightarrow> string option \<Rightarrow> suggestion list" where
  "get_autocomplete_suggestions http query limit google_api_key =
     (if query = [] \<or> length (strip query) < 2 then []
      else deduplicate (all_suggestions http (strip query) limit google_api_key) limit [] {})"

text \<open>
  What deduplication is meant to compute: the first suggestion of every grid cell, in
  the order of arrival.
\<close>

function first_per_cell :: "suggestion list \<Rightarrow> suggestion list" where
  "first_per_cell [] = []"
| "first_per_cell (s # rest) =
     s # first_per_cell (filter (\<lambda>t. coord_key t \<noteq> coord_key s) rest)"
  by pat_completeness auto
termination
  by (relation "measure length") (auto simp: less_Suc_eq_le)

subsection \<open>A small answer set\<close>

text \<open>
  Three answers of the first provider, the first two some ten metres apart; the second
  provider times out and the paid one is not configured.
\<close>

definition demo_results :: "om_result list" where
  "demo_results =
     [\<lparr>om_name = ''Pune'', om_country = ''India'', om_admin1 = ''Maharashtra'',
       om_latitude = Some 18.52043, om_longitude = Some 73.85674\<rparr>,
      \<lparr>om_name = ''Pune City'', om_country = ''India'', om_admin1 = [],
       om_latitude = Some 18.5204, om_longitude = Some 73.8567\<rparr>,
      \<lparr>om_name = ''Punta Arenas'', om_country = ''Chile'', om_admin1 = [],
       om_latitude = Some (- 53.1638), om_longitude = Some (- 70.9171)\<rparr>]"

definition demo_http :: autocomplete_http where
  "demo_http =
     \<lparr>search_openmeteo = (\<lambda>q n. Inr demo_results),
      search_nominatim = (\<lambda>q n. Inl (OtherException ''timeout'')),
      search_google_maps = (\<lambda>q k. Inr None)\<rparr>"


section \<open>services/geocode.py: the provider functions\<close>

text \<open>
  Each provider function sends one HTTP request and reads the decoded JSON. The replies
  are reduced to the fields the module reads. A name, a country or a status is text when
  it is present. A coordinate or an elevation is any JSON value, told apart as far as the
  code can see:
  \<^item> missing or null;
  \<^item> a value that counts as false and that \<^verbatim>\<open>float\<close> rejects (the empty text, an empty list);
  \<^item> a value that counts as true and that \<^verbatim>\<open>float\<close> rejects with a \<^verbatim>\<open>ValueError\<close> or a
    \<^verbatim>\<open>TypeError\<close> (a text that is no number, a list);
  \<^item> an integer too large for a float, for which \<^verbatim>\<open>float\<close> raises \<^verbatim>\<open>OverflowError\<close>;
  \<^item> a non-empty text that \<^verbatim>\<open>float\<close> reads, with the float read;
  \<^item> a number, with its float (a boolean counts as 1 or 0).

  The JSON reader accepts \<^verbatim>\<open>NaN\<close> and \<^verbatim>\<open>Infinity\<close>, and \<^verbatim>\<open>float\<close> reads the texts "nan", "inf"
  and "1e999", so the float need not be finite.
\<close>

datatype json_field = Null | EmptyValue | Unreadable | TooLarge | Text pyfloat | Number pyfloat

fun is_not_None :: "json_field \<Rightarrow> bool" where
  "is_not_None Null = False"
| "is_not_None f = True"

text \<open>The value of a field in a condition. Zero is false; not-a-number is true.\<close>

fun field_truthy :: "json_field \<Rightarrow> bool" where
  "field_truthy Null = False"
| "field_truthy EmptyValue = False"
| "field_truthy Unreadable = True"
| "field_truthy TooLarge = True"
| "field_truthy (Text x) = True"
| "field_truthy (Number x) = (x \<noteq> Finite 0)"

text \<open>
  \<^verbatim>\<open>float(...)\<close> of a field. A \<^verbatim>\<open>TypeError\<close> is written as a \<^verbatim>\<open>ValueError\<close>: every handler of
  the module that catches one catches the other.
\<close>

fun float_of :: "json_field \<Rightarrow> py_exception + pyfloat" where
  "float_of (Text x) = Inr x"
| "float_of (Number x) = Inr x"
| "float_of TooLarge = Inl (OtherException ''OverflowError'')"
| "float_of f = Inl (ValueError ''could not convert to float'')"

record openmeteo_place =
  omp_name :: "string option"
  omp_country :: "string option"
  omp_latitude :: json_field
  omp_longitude :: json_field
  omp_elevation :: json_field

text \<open>
  The second provider: the country of the address is the empty text when absent; the
  elevation is the entry of the extra tags.
\<close>

record nominatim_place =
  nmp_lat :: json_field
  nmp_lon :: json_field
  nmp_country :: string
  nmp_country_code :: "string option"
  nmp_display_name :: "string option"
  nmp_elevation :: json_field

text \<open>
  The third provider. The code reads \<^verbatim>\<open>.get("addresst", {}).get("")\<close>: nothing when the
  address is absent or an object without the entry "", the entry when the object has it,
  and an \<^verbatim>\<open>AttributeError\<close> when the address is a text.
\<close>

datatype addresst = NoAddresst | AddresstText | AddresstEntry string

record geocodexyz_reply =
  xyz_latt :: json_field
  xyz_longt :: json_field
  xyz_city :: string
  xyz_addresst :: addresst
  xyz_countryname :: "string option"

text \<open>The paid provider: an address component is its types and its long name.\<close>

record google_result =
  ggr_lat :: json_field
  ggr_lng :: json_field
  ggr_address_components :: "(string list \<times> string option) list"
  ggr_formatted_address :: "string option"

record google_reply =
  ggl_status :: string
  ggl_results :: "google_result list"

text \<open>
  The four HTTP exchanges: each takes the text to look up (the paid one also the key) and
  raises, also on an error status or a body that is no JSON, or returns the decoded reply.
\<close>

record geocode_http =
  get_openmeteo :: "string \<Rightarrow> py_exception + openmeteo_place list"
  get_nominatim :: "string \<Rightarrow> py_exception + nominatim_place list"
  get_geocodexyz :: "string \<Rightarrow> py_exception + geocodexyz_reply"
  get_google_maps :: "string \<Rightarrow> string \<Rightarrow> py_exception + google_reply"

definition geocode_openmeteo_impl :: "geocode_http \<Rightarrow> geocoder" where
  "geocode_openmeteo_impl http location_name =
     (case and_then (get_openmeteo http location_name) (\<lambda>results.
             case results of
               [] \<Rightarrow> Inr None
             | result # rest \<Rightarrow>
                 if is_not_None (omp_latitude result) \<and> is_not_None (omp_longitude result)
                 then
                   and_then (float_of (omp_latitude result)) (\<lambda>lat.
                   and_then (float_of (omp_longitude result)) (\<lambda>lon.
                   and_then (if is_not_None (omp_elevation result)
                             then and_then (float_of (omp_elevation result)) (\<lambda>x. Inr (Some x))
                             else Inr None) (\<lambda>elevation.
                     Inr (Some \<lparr>loc_name = (case omp_name result of
                                               None \<Rightarrow> location_name
                                             | Some n \<Rightarrow> n),
                                 loc_country = omp_country result,
                                 loc_latitude = lat,
                                 loc_longitude = lon,
                                 loc_elevation = elevation\<rparr>))))
                 else Inr None) of
        Inl e \<Rightarrow> Inr None
      | Inr r \<Rightarrow> Inr r)"

text \<open>
  The elevation of the second provider: a value that counts as true is converted, and a
  \<^verbatim>\<open>ValueError\<close> or \<^verbatim>\<open>TypeError\<close> of the conversion gives \<^verbatim>\<open>None\<close>; a value that counts as
  false stays as it is (the number zero; for an empty text or list the model has \<^verbatim>\<open>None\<close>).
\<close>

definition nominatim_elevation :: "json_field \<Rightarrow> py_exception + pyfloat option" where
  "nominatim_elevation elevation =
     (if field_truthy elevation
      then (case float_of elevation of
              Inr x \<Rightarrow> Inr (Some x)
            | Inl (ValueError m) \<Rightarrow> Inr None
            | Inl e \<Rightarrow> Inl e)
      else (case elevation of
              Number x \<Rightarrow> Inr (Some x)
            | _ \<Rightarrow> Inr None))"

definition geocode_nominatim_impl :: "geocode_http \<Rightarrow> geocoder" where
  "geocode_nominatim_impl http location_name =
     (case and_then (get_nominatim http location_name) (\<lambda>data.
             case data of
               [] \<Rightarrow> Inr None
             | result # rest \<Rightarrow>
                 if is_not_None (nmp_lat result) \<and> is_not_None (nmp_lon result)
                 then
                   and_then (nominatim_elevation (nmp_elevation result)) (\<lambda>elevation.
                   and_then (float_of (nmp_lat result)) (\<lambda>lat.
                   and_then (float_of (nmp_lon result)) (\<lambda>lon.
                     Inr (Some \<lparr>loc_name = before_comma (case nmp_display_name result of
                                                             None \<Rightarrow> location_name
                                                           | Some d \<Rightarrow> d),
                                 loc_country = (if nmp_country result \<noteq> []
                                                then Some (nmp_country result)
                                                else nmp_country_code result),
                                 loc_latitude = lat,
                                 loc_longitude = lon,
                                 loc_elevation = elevation\<rparr>))))
                 else Inr None) of
        Inl e \<Rightarrow> Inr None
      | Inr r \<Rightarrow> Inr r)"

text \<open>The name of the third provider: the city, or the address entry, or the text looked up.\<close>

definition geocodexyz_name :: "geocodexyz_reply \<Rightarrow> string \<Rightarrow> py_exception + string" where
  "geocodexyz_name data location_name =
     (if xyz_city data \<noteq> [] then Inr (xyz_city data)
      else (case xyz_addresst data of
              NoAddresst \<Rightarrow> Inr location_name
            | AddresstText \<Rightarrow> Inl (OtherException ''AttributeError'')
            | AddresstEntry a \<Rightarrow> Inr (str_or a location_name)))"

definition geocode_geocodexyz_impl :: "geocode_http \<Rightarrow> geocoder" where
  "geocode_geocodexyz_impl http location_name =
     (case and_then (get_geocodexyz http location_name) (\<lambda>data.
             if field_truthy (xyz_latt data) \<and> field_truthy (xyz_longt data)
             then
               and_then (float_of (xyz_latt data)) (\<lambda>lat.
               and_then (float_of (xyz_longt data)) (\<lambda>lon.
                 if lat \<noteq> Finite 0 \<or> lon \<noteq> Finite 0
                 then
                   and_then (geocodexyz_name data location_name) (\<lambda>name.
                     Inr (Some \<lparr>loc_name = name,
                                 loc_country = xyz_countryname data,
                                 loc_latitude = lat,
                                 loc_longitude = lon,
                                 loc_elevation = None\<rparr>))
                 else Inr None))
             else Inr None) of
        Inl e \<Rightarrow> Inr None
      | Inr r \<Rightarrow> Inr r)"

text \<open>The country of the paid provider: the long name of the last component of type country.\<close>

definition google_country :: "(string list \<times> string option) list \<Rightarrow> string option" where
  "google_country address_components =
     fold (\<lambda>component country.
             if ''country'' \<in> set (fst component) then snd component else country)
       address_components None"

definition geocode_google_maps_impl :: "geocode_http \<Rightarrow> string \<Rightarrow> string \<Rightarrow> py_exception + location option" where
  "geocode_google_maps_impl http location_name api_key =
     (if api_key = [] then Inr None
      else
        (case and_then (get_google_maps http location_name api_key) (\<lambda>data.
                if ggl_status data \<noteq> ''OK'' \<or> ggl_results data = [] then Inr None
                else
                  (let result = hd (ggl_results data)
                   in if field_truthy (ggr_lat result) \<and> field_truthy (ggr_lng result)
                      then
                        and_then (float_of (ggr_lat result)) (\<lambda>lat.
                        and_then (float_of (ggr_lng result)) (\<lambda>lon.
                          Inr (Some \<lparr>loc_name = (case ggr_formatted_address result of
                                                    None \<Rightarrow> location_name
                                                  | Some a \<Rightarrow> a),
                                      loc_country = google_country (ggr_address_components result),
                                      loc_latitude = lat,
                                      loc_longitude = lon,
                                      loc_elevation = None\<rparr>)))
                      else Inr None)) of
           Inl e \<Rightarrow> Inr None
         | Inr r \<Rightarrow> Inr r))"

text \<open>The provider functions of the module over given HTTP exchanges.\<close>

definition module_geocoders :: "geocode_http \<Rightarrow> geocode_providers" where
  "module_geocoders http =
     \<lparr>geocode_google_maps = (\<lambda>google_api_key loc. geocode_google_maps_impl http loc google_api_key),
      geocode_openmeteo = geocode_openmeteo_impl http,
      geocode_nominatim = geocode_nominatim_impl http,
      geocode_geocodexyz = geocode_geocodexyz_impl http\<rparr>"

subsection \<open>Replies with finite coordinates\<close>



subsection \<open>Two sets of replies\<close>

text \<open>
  In the first the first free provider knows "Pune" and the others fail. In the second
  the first free provider finds nothing and the second answers "Pune" with the latitude
  text "nan".
\<close>

definition pune :: location where
  "pune = \<lparr>loc_name = ''Pune'', loc_country = Some ''India'',
           loc_latitude = Finite 18.5, loc_longitude = Finite 73.875,
           loc_elevation = Some (Finite 560)\<rparr>"

definition pune_reply :: openmeteo_place where
  "pune_reply = \<lparr>omp_name = Some ''Pune'', omp_country = Some ''India'',
                 omp_latitude = Number (Finite 18.5), omp_longitude = Number (Finite 73.875),
                 omp_elevation = Number (Finite 560)\<rparr>"

definition pune_http :: geocode_http where
  "pune_http =
     \<lparr>get_openmeteo = (\<lambda>q. if q = ''Pune'' then Inr [pune_reply] else Inr []),
      get_nominatim = (\<lambda>q. Inl (OtherException ''timeout'')),
      get_geocodexyz = (\<lambda>q. Inl (OtherException ''timeout'')),
      get_google_maps = (\<lambda>q k. Inl (OtherException ''timeout''))\<rparr>"



section \<open>services/weather.py: the fetchers\<close>

text \<open>
  A row of a weather \<^verbatim>\<open>DataFrame\<close>: the instant and the seven hourly variables, a missing
  value being \<open>None\<close>. A frame is the list of its rows; the empty frame still has the
  eight columns, so \<^verbatim>\<open>df.empty\<close> is \<open>df = []\<close>.
\<close>

record row =
  time :: int
  temperature_2m :: "real option"
  relativehumidity_2m :: "real option"
  shortwave_radiation :: "real option"
  cloudcover :: "real option"
  precipitation :: "real option"
  pressure_msl :: "real option"
  wind_speed_10m :: "real option"

type_synonym frame = "row list"

datatype column =
    Temperature_2m | Relativehumidity_2m | Shortwave_radiation | Cloudcover
  | Precipitation | Pressure_msl | Wind_speed_10m

fun cell :: "column \<Rightarrow> row \<Rightarrow> real option" where
  "cell Temperature_2m r = temperature_2m r"
| "cell Relativehumidity_2m r = relativehumidity_2m r"
| "cell Shortwave_radiation r = shortwave_radiation r"
| "cell Cloudcover r = cloudcover r"
| "cell Precipitation r = precipitation r"
| "cell Pressure_msl r = pressure_msl r"
| "cell Wind_speed_10m r = wind_speed_10m r"

fun set_cell :: "column \<Rightarrow> real option \<Rightarrow> row \<Rightarrow> row" where
  "set_cell Temperature_2m v r = r\<lparr>temperature_2m := v\<rparr>"
| "set_cell Relativehumidity_2m v r = r\<lparr>relativehumidity_2m := v\<rparr>"
| "set_cell Shortwave_radiation v r = r\<lparr>shortwave_radiation := v\<rparr>"
| "set_cell Cloudcover v r = r\<lparr>cloudcover := v\<rparr>"
| "set_cell Precipitation v r = r\<lparr>precipitation := v\<rparr>"
| "set_cell Pressure_msl v r = r\<lparr>pressure_msl := v\<rparr>"
| "set_cell Wind_speed_10m v r = r\<lparr>wind_speed_10m := v\<rparr>"

text \<open>
  The \<^verbatim>\<open>hourly\<close> object of an upstream answer. An entry of its time array is null, text
  that \<^verbatim>\<open>pd.to_datetime\<close> rejects, or an instant; a variable is absent or an array.
\<close>

datatype time_entry = TimeNull | TimeInvalid | Time int

record hourly =
  h_time :: "time_entry list"
  h_values :: "column \<Rightarrow> real option list option"

text \<open>
  The decoded answer: whether it carries an \<^verbatim>\<open>error\<close> or \<^verbatim>\<open>reason\<close> key, and its
  \<^verbatim>\<open>hourly\<close> object if any. The request itself (time-out, transport failure, a status
  other than 200, an undecodable body) either raises or is skipped by the loop just the
  same, so an exchange is an exception or a payload.
\<close>

record payload =
  has_error :: bool
  hourly_data :: "hourly option"

type_synonym weather_api = "string \<Rightarrow> py_exception + payload"

definition variable_sets :: "string list" where
  "variable_sets =
     [''temperature_2m,relativehumidity_2m,shortwave_radiation,cloudcover,precipitation,pressure_msl,wind_speed_10m'',
      ''temperature_2m,relativehumidity_2m,shortwave_radiation,cloudcover,precipitation,pressure_msl'',
      ''temperature_2m,relativehumidity_2m,shortwave_radiation,cloudcover'',
      ''temperature_2m,relativehumidity_2m'']"

definition all_columns :: "column list" where
  "all_columns = [Temperature_2m, Relativehumidity_2m, Shortwave_radiation, Cloudcover,
                  Precipitation, Pressure_msl, Wind_speed_10m]"

text \<open>
  Building the frame: the time array is parsed, every variable is taken from the answer
  or filled with \<open>None\<close>, the \<^verbatim>\<open>DataFrame\<close> constructor rejects arrays of unequal length,
  and rows without a time are dropped.
\<close>

definition column_values :: "hourly \<Rightarrow> column \<Rightarrow> real option list" where
  "column_values h c =
     (case h_values h c of
        Some vs \<Rightarrow> vs
      | None \<Rightarrow> replicate (length (h_time h)) None)"

definition row_at :: "hourly \<Rightarrow> nat \<Rightarrow> int \<Rightarrow> row" where
  "row_at h i t =
     \<lparr>time = t,
      temperature_2m = column_values h Temperature_2m ! i,
      relativehumidity_2m = column_values h Relativehumidity_2m ! i,
      shortwave_radiation = column_values h Shortwave_radiation ! i,
      cloudcover = column_values h Cloudcover ! i,
      precipitation = column_values h Precipitation ! i,
      pressure_msl = column_values h Pressure_msl ! i,
      wind_speed_10m = column_values h Wind_speed_10m ! i\<rparr>"

fun timed_rows :: "hourly \<Rightarrow> (nat \<times> time_entry) list \<Rightarrow> frame" where
  "timed_rows h [] = []"
| "timed_rows h ((i, Time t) # es) = row_at h i t # timed_rows h es"
| "timed_rows h ((i, e) # es) = timed_rows h es"

definition build_frame :: "hourly \<Rightarrow> py_exception + frame" where
  "build_frame h =
     (if TimeInvalid \<in> set (h_time h) then Inl (ValueError ''Unknown datetime string format'')
      else if \<exists>c \<in> set all_columns. length (column_values h c) \<noteq> length (h_time h)
      then Inl (ValueError ''All arrays must be of the same length'')
      else Inr (timed_rows h (zip [0..<length (h_time h)] (h_time h))))"

text \<open>
  One attempt of the loop over the variable sets: \<open>None\<close> is \<^verbatim>\<open>continue\<close>. The accepted
  frame is sorted by time. Rows of equal time keep their order here; \<^verbatim>\<open>sort_values\<close> with
  its default algorithm promises no order among them.
\<close>

definition attempt :: "py_exception + payload \<Rightarrow> frame option" where
  "attempt response =
     (case response of
        Inl e \<Rightarrow> None
      | Inr data \<Rightarrow>
          if has_error data then None
          else (case hourly_data data of
                  None \<Rightarrow> None
                | Some h \<Rightarrow>
                    if h_time h = [] then None
                    else (case build_frame h of
                            Inl e \<Rightarrow> None
                          | Inr df \<Rightarrow> if df = [] then None else Some (sort_key time df))))"

fun fetch_loop :: "weather_api \<Rightarrow> string list \<Rightarrow> frame" where
  "fetch_loop api [] = []"
| "fetch_loop api (variables # rest) =
     (case attempt (api variables) of
        Some df \<Rightarrow> df
      | None \<Rightarrow> fetch_loop api rest)"

text \<open>
  The two fetchers differ in the endpoint and in the request parameters, which the
  exchange takes: coordinates and day count, the forecast days capped at 14.
\<close>

definition fetch_historical ::
    "(pyfloat \<Rightarrow> pyfloat \<Rightarrow> int \<Rightarrow> weather_api) \<Rightarrow> pyfloat \<Rightarrow> pyfloat \<Rightarrow> int \<Rightarrow> frame" where
  "fetch_historical archive_api lat lon days = fetch_loop (archive_api lat lon days) variable_sets"

definition fetch_forecast ::
    "(pyfloat \<Rightarrow> pyfloat \<Rightarrow> int \<Rightarrow> weather_api) \<Rightarrow> pyfloat \<Rightarrow> pyfloat \<Rightarrow> int \<Rightarrow> frame" where
  "fetch_forecast forecast_api lat lon days =
     fetch_loop (forecast_api lat lon (min days 14)) variable_sets"

text \<open>
  \<^verbatim>\<open>extract_current_from_forecast\<close>: the first row nearest to the present instant, as the
  list of its known values in column order.
\<close>

fun closest_row :: "int \<Rightarrow> row \<Rightarrow> frame \<Rightarrow> row" where
  "closest_row now best [] = best"
| "closest_row now best (r # rs) =
     (if \<bar>time r - now\<bar> < \<bar>time best - now\<bar> then closest_row now r rs
      else closest_row now best rs)"

definition extract_current_from_forecast :: "int \<Rightarrow> frame \<Rightarrow> (column \<times> real) list" where
  "extract_current_from_forecast now forecast_df =
     (case forecast_df of
        [] \<Rightarrow> []
      | r # rs \<Rightarrow>
          List.map_filter (\<lambda>c. map_option (Pair c) (cell c (closest_row now r rs))) all_columns)"

section \<open>schemas.py and main.py: the data endpoint\<close>

record LocationRequest =
  location :: "string option"
  latitude :: "real option"
  longitude :: "real option"
  historical_days :: int
  forecast_days :: int

text \<open>Python truthiness of an optional text: present and not empty.\<close>

definition truthy :: "string option \<Rightarrow> bool" where
  "truthy s = (s \<noteq> None \<and> s \<noteq> Some [])"

definition either_message :: string where
  "either_message = ''Either '' @ [CHR 0x27] @ ''location'' @ [CHR 0x27] @ '' or '' @
     [CHR 0x27] @ ''latitude'' @ [CHR 0x27] @ '' and '' @ [CHR 0x27] @ ''longitude'' @
     [CHR 0x27] @ '' must be provided''"

text \<open>The constructor of \<^verbatim>\<open>LocationRequest\<close> with its check.\<close>

definition LocationRequest_init ::
    "string option \<Rightarrow> real option \<Rightarrow> real option \<Rightarrow> int \<Rightarrow> int \<Rightarrow> py_exception + LocationRequest" where
  "LocationRequest_init loc lat lon hdays fdays =
     (if \<not> truthy loc \<and> (lat = None \<or> lon = None) then Inl (ValueError either_message)
      else Inr \<lparr>location = loc, latitude = lat, longitude = lon,
                historical_days = hdays, forecast_days = fdays\<rparr>)"

record TimeSeriesPoint =
  p_time :: int
  p_temperature_2m :: "real option"
  p_shortwave_radiation :: "real option"
  p_wind_speed_10m :: "real option"
  p_relativehumidity_2m :: "real option"
  p_cloudcover :: "real option"
  p_precipitation :: "real option"
  p_pressure_msl :: "real option"

record DataResponse =
  resp_location :: location
  resp_current :: "(column \<times> real) list"
  historical :: "TimeSeriesPoint list"
  api_forecast :: "TimeSeriesPoint list"
  ml_forecast :: "TimeSeriesPoint list"
  blended_forecast :: "TimeSeriesPoint list"

text \<open>\<^verbatim>\<open>dataframe_to_timeseries\<close>; the instant stands for its ISO 8601 text.\<close>

definition dataframe_to_timeseries :: "frame \<Rightarrow> TimeSeriesPoint list" where
  "dataframe_to_timeseries df =
     map (\<lambda>r. \<lparr>p_time = time r,
                p_temperature_2m = temperature_2m r,
                p_shortwave_radiation = shortwave_radiation r,
                p_wind_speed_10m = wind_speed_10m r,
                p_relativehumidity_2m = relativehumidity_2m r,
                p_cloudcover = cloudcover r,
                p_precipitation = precipitation r,
                p_pressure_msl = pressure_msl r\<rparr>) df"

text \<open>
  Everything the endpoint calls outside the repository: the geocoding providers, the two
  weather endpoints, the clock, the regression library and, for the recursive forecast of
  \<^verbatim>\<open>forecast_with_ensemble\<close>, the predictions it returns or the exception it raises.
\<close>

record 'm services =
  geocoding :: geocode_providers
  reverse_geocoding :: reverse_providers
  google_maps_api_key :: "string option"
  archive_api :: "pyfloat \<Rightarrow> pyfloat \<Rightarrow> int \<Rightarrow> weather_api"
  forecast_api :: "pyfloat \<Rightarrow> pyfloat \<Rightarrow> int \<Rightarrow> weather_api"
  now :: int
  learner :: "'m sklearn"
  forecast_with_ensemble :: "'m models \<Rightarrow> series \<Rightarrow> nat \<Rightarrow> nat \<Rightarrow> py_exception + real list"

text \<open>A column of a frame as a series indexed by time.\<close>

definition column_series :: "column \<Rightarrow> frame \<Rightarrow> series" where
  "column_series c df = map (\<lambda>r. (time r, cell c r)) df"

text \<open>
  \<^verbatim>\<open>create_ml_forecast_df\<close>. The result has the two columns \<^verbatim>\<open>time\<close> and the target, so it
  is a series.
\<close>

definition create_ml_forecast_df :: "'m services \<Rightarrow> frame \<Rightarrow> frame \<Rightarrow> column \<Rightarrow> series" where
  "create_ml_forecast_df sv historical_df forecast_df target_column =
     (if historical_df = [] \<or> forecast_df = [] then []
      else
        (let historical_series =
               map (\<lambda>(t, x). (t, Some x)) (dropna (column_series target_column historical_df))
         in if length historical_series < 48 then column_series target_column forecast_df
            else
              (case and_then (train_ensemble_model (learner sv) historical_series 24)
                      (\<lambda>(model, lags).
                    and_then (forecast_with_ensemble sv model historical_series
                                (length forecast_df) lags)
                      (\<lambda>predictions.
                         if length predictions \<noteq> length forecast_df
                         then Inl (ValueError ''All arrays must be of the same length'')
                         else Inr (zip (map time forecast_df) (map Some predictions)))) of
                 Inr result \<Rightarrow> result
               | Inl e \<Rightarrow> column_series target_column forecast_df)))"

text \<open>Step 1 of the endpoint: the coordinates and the location metadata.\<close>

definition resolve_location ::
    "'m services \<Rightarrow> LocationRequest \<Rightarrow> py_exception + (location \<times> pyfloat \<times> pyfloat)" where
  "resolve_location sv request =
     (case (latitude request, longitude request) of
        (Some lat, Some lon) \<Rightarrow>
          (case reverse_geocode (reverse_geocoding sv) lat lon (google_maps_api_key sv) of
             Inr reverse_geo \<Rightarrow>
               Inr (\<lparr>loc_name = str_or (place_display_name reverse_geo) (place_name reverse_geo),
                      loc_country = place_country reverse_geo,
                      loc_latitude = Finite lat, loc_longitude = Finite lon,
                      loc_elevation = None\<rparr>, Finite lat, Finite lon)
           | Inl e \<Rightarrow>
               Inr (\<lparr>loc_name = format_fixed 4 lat @ '', '' @ format_fixed 4 lon,
                      loc_country = None,
                      loc_latitude = Finite lat, loc_longitude = Finite lon,
                      loc_elevation = None\<rparr>, Finite lat, Finite lon))
      | _ \<Rightarrow>
          (case location request of
             Some text \<Rightarrow>
               if text \<noteq> []
               then and_then (geocode_location (geocoding sv) text (google_maps_api_key sv))
                      (\<lambda>geo_data. Inr (geo_data, loc_latitude geo_data, loc_longitude geo_data))
               else Inl (ValueError either_message)
           | None \<Rightarrow> Inl (ValueError either_message)))"

definition target_variables :: "column list" where
  "target_variables = [Temperature_2m, Shortwave_radiation, Wind_speed_10m]"

text \<open>Assigning an array to a column of a frame: the lengths must agree.\<close>

definition assign_column :: "column \<Rightarrow> real option list \<Rightarrow> frame \<Rightarrow> py_exception + frame" where
  "assign_column c vs df =
     (if length vs \<noteq> length df
      then Inl (ValueError ''Length of values does not match length of index'')
      else Inr (map (\<lambda>(v, r). set_cell c v r) (zip vs df)))"

text \<open>Step 6, one variable: blend and store, or keep the API column when anything raises.\<close>

definition blend_step :: "(column \<Rightarrow> series) \<Rightarrow> frame \<Rightarrow> column \<Rightarrow> frame \<Rightarrow> frame" where
  "blend_step ml_forecasts forecast_df var blended_df =
     (if ml_forecasts var = [] then blended_df
      else (case and_then (blend_ml_and_api (ml_forecasts var) (column_series var forecast_df) float_0_6)
                   (\<lambda>blended_series. assign_column var (map snd blended_series) blended_df) of
              Inr df \<Rightarrow> df
            | Inl e \<Rightarrow> blended_df))"

text \<open>Step 7, one variable: the model column replaces the API column.\<close>

definition combine_step ::
    "(column \<Rightarrow> series) \<Rightarrow> column \<Rightarrow> py_exception + frame \<Rightarrow> py_exception + frame" where
  "combine_step ml_forecasts var acc =
     and_then acc (\<lambda>df.
       if ml_forecasts var = [] then Inr df
       else assign_column var (map snd (ml_forecasts var)) df)"

text \<open>The body of the \<^verbatim>\<open>try\<close> block of \<^verbatim>\<open>get_weather_data\<close>.\<close>

definition get_weather_data_try :: "'m services \<Rightarrow> LocationRequest \<Rightarrow> py_exception + DataResponse" where
  "get_weather_data_try sv request =
     and_then (resolve_location sv request) (\<lambda>(geo_data, lat, lon).
       (let historical_df = fetch_historical (archive_api sv) lat lon (historical_days request);
            forecast_df = fetch_forecast (forecast_api sv) lat lon (forecast_days request)
        in if forecast_df = []
           then Inl (ValueError ''Failed to fetch forecast data. Please try again later.'')
           else
             (let current = extract_current_from_forecast (now sv) forecast_df;
                  ml_forecasts = (\<lambda>var. create_ml_forecast_df sv historical_df forecast_df var);
                  blended_df = fold (blend_step ml_forecasts forecast_df) target_variables forecast_df
              in and_then (fold (combine_step ml_forecasts) target_variables (Inr forecast_df))
                   (\<lambda>ml_forecast_combined.
                      Inr \<lparr>resp_location = geo_data,
                           resp_current = current,
                           historical = dataframe_to_timeseries historical_df,
                           api_forecast = dataframe_to_timeseries forecast_df,
                           ml_forecast = dataframe_to_timeseries ml_forecast_combined,
                           blended_forecast = dataframe_to_timeseries blended_df\<rparr>))))"

text \<open>The three \<^verbatim>\<open>except\<close> clauses.\<close>

fun handle_exception :: "py_exception \<Rightarrow> py_exception" where
  "handle_exception (ValueError error_msg) = HTTPException 400 error_msg"
| "handle_exception (HTTPException status_code detail) = HTTPException status_code detail"
| "handle_exception (OtherException msg) = HTTPException 500 (''Internal server error: '' @ msg)"

definition get_weather_data :: "'m services \<Rightarrow> LocationRequest \<Rightarrow> py_exception + DataResponse" where
  "get_weather_data sv request =
     (case get_weather_data_try sv request of
        Inr response \<Rightarrow> Inr response
      | Inl e \<Rightarrow> Inl (handle_exception e))"

subsection \<open>A small deployment\<close>

text \<open>
  The archive times out on every request, so there is no history; the forecast endpoint
  answers three hours of temperature, out of order and with the hour 3600 twice (with the
  same temperature both times); no key
  is configured and the clock stands at 0.
\<close>

definition demo_hourly :: hourly where
  "demo_hourly =
     \<lparr>h_time = [Time 7200, Time 3600, Time 3600],
      h_values = (\<lambda>c. if c = Temperature_2m then Some [Some 21, Some 20, Some 20] else None)\<rparr>"

definition demo_services :: "bool services" where
  "demo_services =
     \<lparr>geocoding = two_providers,
      reverse_geocoding = failing_reverse_providers,
      google_maps_api_key = None,
      archive_api = (\<lambda>lat lon days variables. Inl (OtherException ''timeout'')),
      forecast_api = (\<lambda>lat lon days variables.
                        Inr \<lparr>has_error = False, hourly_data = Some demo_hourly\<rparr>),
      now = 0,
      learner = c3_sklearn (3 / 4) (1 / 4),
      forecast_with_ensemble = (\<lambda>model s steps lags. Inr (replicate steps 0))\<rparr>"

text \<open>The instants of a time array, nulls left out.\<close>

fun instants :: "time_entry list \<Rightarrow> int list" where
  "instants [] = []"
| "instants (Time t # es) = t # instants es"
| "instants (e # es) = instants es"

text \<open>A forecast row with a time and a temperature only.\<close>

definition temperature_row :: "int \<Rightarrow> real \<Rightarrow> row" where
  "temperature_row t x =
     \<lparr>time = t, temperature_2m = Some x, relativehumidity_2m = None,
      shortwave_radiation = None, cloudcover = None, precipitation = None,
      pressure_msl = None, wind_speed_10m = None\<rparr>"

text \<open>A request by coordinates, and what the small deployment answers to it.\<close>

definition demo_request :: LocationRequest where
  "demo_request = \<lparr>location = None, latitude = Some 0, longitude = Some 0,
                    historical_days = 60, forecast_days = 7\<rparr>"

definition temperature_point :: "int \<Rightarrow> real \<Rightarrow> TimeSeriesPoint" where
  "temperature_point t x =
     \<lparr>p_time = t, p_temperature_2m = Some x, p_shortwave_radiation = None,
      p_wind_speed_10m = None, p_relativehumidity_2m = None, p_cloudcover = None,
      p_precipitation = None, p_pressure_msl = None\<rparr>"

definition demo_response :: DataResponse where
  "demo_response =
     \<lparr>resp_location = \<lparr>loc_name = ''0.0000, 0.0000'', loc_country = None,
                        loc_latitude = Finite 0, loc_longitude = Finite 0,
                        loc_elevation = None\<rparr>,
      resp_current = [(Temperature_2m, 20)],
      historical = [],
      api_forecast = [temperature_point 3600 20, temperature_point 3600 20,
                      temperature_point 7200 21],
      ml_forecast = [temperature_point 3600 20, temperature_point 3600 20,
                     temperature_point 7200 21],
      blended_forecast = [temperature_point 3600 20, temperature_point 3600 20,
                          temperature_point 7200 21]\<rparr>"

section \<open>Verified properties: ensemble training\<close>

lemma and_then_Inr: "and_then r f = Inr y \<longleftrightarrow> (\<exists>x. r = Inr x \<and> f x = Inr y)"
  by (cases r) (simp_all add: and_then_def)

lemma train_try_Inr:
  assumes "train_ensemble_try sk s lags = Inr (m, l)"
  shows "\<exists>Xy rf_model gb_model rf_score gb_score.
           rf_fit sk Xy = Inr rf_model \<and> gb_fit sk Xy = Inr gb_model \<and>
           score sk rf_model Xy = Inr rf_score \<and> score sk gb_model Xy = Inr gb_score \<and>
           rf m = rf_model \<and> gb m = Some gb_model \<and>
           weights m = ensemble_weights rf_score gb_score"
proof -
  from assms obtain Xy l' where
    body: "(if length (fst Xy) < 10 then Inl (ValueError ''Not enough data for training'')
          else
            and_then (rf_fit sk Xy) (\<lambda>rf_model.
            and_then (gb_fit sk Xy) (\<lambda>gb_model.
            and_then (score sk rf_model Xy) (\<lambda>rf_score.
            and_then (score sk gb_model Xy) (\<lambda>gb_score.
              Inr (\<lparr>rf = rf_model, gb = Some gb_model,
                      weights = ensemble_weights rf_score gb_score\<rparr>, l'))))))
        = Inr (m, l)"
    unfolding train_ensemble_try_def and_then_Inr by (auto split: prod.splits)
  then show ?thesis
    by (cases Xy) (fastforce simp: and_then_Inr split: if_splits)
qed

lemma train_fallback_Inr:
  assumes "train_ensemble_fallback sk s lags = Inr (m, l)"
  shows "gb m = None \<and> weights m = (1, 0)"
  using assms unfolding train_ensemble_fallback_def
  by (auto simp: and_then_Inr Let_def split: prod.splits)

lemma train_model_cases:
  assumes "train_ensemble_model sk s lags = Inr (m, l)"
  shows "(train_ensemble_try sk s lags = Inr (m, l) \<and> gb m \<noteq> None) \<or>
         ((\<exists>e. train_ensemble_try sk s lags = Inl e) \<and>
          train_ensemble_fallback sk s lags = Inr (m, l) \<and> gb m = None)"
proof (cases "train_ensemble_try sk s lags")
  case (Inl e)
  with assms have "train_ensemble_fallback sk s lags = Inr (m, l)"
    by (simp add: train_ensemble_model_def)
  with Inl show ?thesis using train_fallback_Inr by blast
next
  case (Inr r)
  with assms have "train_ensemble_try sk s lags = Inr (m, l)"
    by (simp add: train_ensemble_model_def)
  then show ?thesis using train_try_Inr by fastforce
qed

lemma train_model_Inl:
  "train_ensemble_model sk s lags = Inl e \<longleftrightarrow>
     (\<exists>e'. train_ensemble_try sk s lags = Inl e') \<and>
     rf_fallback_fit sk (fst (create_simple_features s lags)) = Inl e"
proof -
  obtain Xy l' where c: "create_simple_features s lags = (Xy, l')"
    by (cases "create_simple_features s lags")
  have f: "train_ensemble_fallback sk s lags = Inl e \<longleftrightarrow> rf_fallback_fit sk Xy = Inl e"
    by (cases "rf_fallback_fit sk Xy") (simp_all add: train_ensemble_fallback_def and_then_def c)
  show ?thesis
    by (cases "train_ensemble_try sk s lags") (simp_all add: train_ensemble_model_def f c)
qed

lemma pow2_pos: "0 < pow2 e"
  by (simp add: pow2_def)

lemma round_half_even_nonpos: "y \<le> 0 \<Longrightarrow> round_half_even y \<le> 0"
proof -
  assume y: "y \<le> 0"
  have pick: "(if A then f else if B then f + 1 else if C then f else f + 1) \<le> (0::int)"
    if "f + 1 \<le> 0" for A B C f
    using that by auto
  show ?thesis
  proof (cases "y = 0")
    case True
    then show ?thesis by (simp add: round_half_even_def)
  next
    case False
    with y have "y < 0" by simp
    then have "\<lfloor>y\<rfloor> < 0" by (simp add: floor_less_zero)
    then have "\<lfloor>y\<rfloor> + 1 \<le> 0" by linarith
    from pick [OF this] show ?thesis
      unfolding round_half_even_def Let_def .
  qed
qed

lemma round_float_nonpos: "y \<le> 0 \<Longrightarrow> round_float y \<le> 0"
proof -
  assume y: "y \<le> 0"
  have "y / pow2 e \<le> 0" for e
    using y pow2_pos [of e] by (simp add: divide_nonpos_pos)
  then have "round_half_even (y / pow2 e) \<le> 0" for e
    by (rule round_half_even_nonpos)
  then have "real_of_int (round_half_even (y / pow2 e)) * pow2 e \<le> 0" for e
    using pow2_pos [of e] by (simp add: mult_le_0_iff)
  then show ?thesis by (simp add: round_float_def Let_def)
qed


lemma ensemble_weights_negative:
  "rf_score < 0 \<Longrightarrow> 0 < fadd rf_score gb_score \<Longrightarrow> fst (ensemble_weights rf_score gb_score) \<le> 0"
proof -
  assume r: "rf_score < 0" and t: "0 < fadd rf_score gb_score"
  then have "rf_score / fadd rf_score gb_score \<le> 0"
    by (simp add: divide_nonpos_pos)
  then have "fdiv rf_score (fadd rf_score gb_score) \<le> 0"
    unfolding fdiv_def by (rule round_float_nonpos)
  with t show ?thesis by (simp add: ensemble_weights_def Let_def)
qed

lemma c3_clean_length: "length (dropna c3_series) = 20"
proof -
  have "dropna (map (\<lambda>i. (int i, Some (real i))) xs) = map (\<lambda>i. (int i, real i)) xs" for xs
    by (induction xs) simp_all
  then show ?thesis by (simp add: c3_series_def)
qed

lemma c3_simple_features:
  "length (fst (fst (create_simple_features c3_series 24))) = 10 \<and>
   snd (create_simple_features c3_series 24) = 10"
  by (simp add: create_simple_features_def Let_def c3_clean_length)

lemma c3_train:
  "train_ensemble_model (c3_sklearn a b) c3_series 24 =
     Inr (\<lparr>rf = True, gb = Some False, weights = ensemble_weights a b\<rparr>, 10)"
proof -
  obtain Xy where Xy: "create_simple_features c3_series 24 = (Xy, 10)" "length (fst Xy) = 10"
    using c3_simple_features by (cases "create_simple_features c3_series 24") auto
  from Xy(2) have ne: "fst Xy \<noteq> []" by auto
  show ?thesis
    by (simp add: train_ensemble_model_def train_ensemble_try_def and_then_def
        c3_clean_length Xy c3_sklearn_def fit_unless_empty_def ne)
qed

lemma empty_train:
  "train_ensemble_model (c3_sklearn a b) [] 24 = Inl (ValueError ''Found array with 0 sample(s)'')"
  by (simp add: train_ensemble_model_def train_ensemble_try_def train_ensemble_fallback_def
      and_then_def create_simple_features_def c3_sklearn_def fit_unless_empty_def)


lemma weights_negative_quarter: "ensemble_weights (- (1 / 4)) (3 / 4) = (- (1 / 2), 3 / 2)"
  by (simp add: ensemble_weights_def fadd_def fdiv_def round_float_def float_exponent_def
      exponent_up.simps exponent_down.simps pow2_def round_half_even_def Let_def)

lemma weights_rounded:
  "ensemble_weights float_0_529 float_0_7537 =
     (1857335466499565 / 4503599627370496, 5292528321741861 / 9007199254740992)"
  by (simp add: ensemble_weights_def fadd_def fdiv_def round_float_def float_exponent_def
      exponent_up.simps exponent_down.simps pow2_def round_half_even_def Let_def
      float_0_529_def float_0_7537_def)

lemma literals: "round_float 0.529 = float_0_529" "round_float 0.7537 = float_0_7537"
  "round_float 0.6 = float_0_6" "round_float 31.8 = float_31_8"
  by (simp_all add: round_float_def float_exponent_def
      exponent_up.simps exponent_down.simps pow2_def round_half_even_def Let_def
      float_0_529_def float_0_7537_def float_0_6_def float_31_8_def)




text \<open>
  Claim C10, as the code has it. Whenever training returns, the weight pair is (1, 0) in
  the single-model fallback, and otherwise (1/2, 1/2) when the float sum of the two
  training scores is not positive and the pair of float quotients of each score by that
  sum when it is positive. The pairs (1, 0) and (1/2, 1/2) sum to one; the quotients are
  rounded, so their sum is one only up to rounding. A negative score with a positive sum
  gets a weight that is not positive, so the combination need not be convex. Training
  does not return for every input: it raises exactly when the ensemble attempt fails and
  the fallback regressor raises too.
\<close>

theorem weight_pair_invariant:
  "(\<forall>m l. train_ensemble_model sk s lags = Inr (m, l) \<longrightarrow>
      (gb m = None \<longrightarrow> weights m = (1, 0)) \<and>
      (gb m \<noteq> None \<longrightarrow>
        (\<exists>Xy rf_model gb_model rf_score gb_score.
           rf_fit sk Xy = Inr rf_model \<and> gb_fit sk Xy = Inr gb_model \<and>
           score sk rf_model Xy = Inr rf_score \<and> score sk gb_model Xy = Inr gb_score \<and>
           weights m = (if 0 < fadd rf_score gb_score
                        then (fdiv rf_score (fadd rf_score gb_score),
                              fdiv gb_score (fadd rf_score gb_score))
                        else (1 / 2, 1 / 2)) \<and>
           (rf_score < 0 \<and> 0 < fadd rf_score gb_score \<longrightarrow> fst (weights m) \<le> 0) \<and>
           (\<not> 0 < fadd rf_score gb_score \<longrightarrow> fst (weights m) + snd (weights m) = 1)))) \<and>
   (\<forall>e. train_ensemble_model sk s lags = Inl e \<longleftrightarrow>
      (\<exists>e'. train_ensemble_try sk s lags = Inl e') \<and>
      rf_fallback_fit sk (fst (create_simple_features s lags)) = Inl e)"
proof -
  have A: "(gb m = None \<longrightarrow> weights m = (1, 0)) \<and>
      (gb m \<noteq> None \<longrightarrow>
        (\<exists>Xy rf_model gb_model rf_score gb_score.
           rf_fit sk Xy = Inr rf_model \<and> gb_fit sk Xy = Inr gb_model \<and>
           score sk rf_model Xy = Inr rf_score \<and> score sk gb_model Xy = Inr gb_score \<and>
           weights m = (if 0 < fadd rf_score gb_score
                        then (fdiv rf_score (fadd rf_score gb_score),
                              fdiv gb_score (fadd rf_score gb_score))
                        else (1 / 2, 1 / 2)) \<and>
           (rf_score < 0 \<and> 0 < fadd rf_score gb_score \<longrightarrow> fst (weights m) \<le> 0) \<and>
           (\<not> 0 < fadd rf_score gb_score \<longrightarrow> fst (weights m) + snd (weights m) = 1)))"
    if r: "train_ensemble_model sk s lags = Inr (m, l)" for m l
  proof (cases "gb m = None")
    case True
    with train_model_cases [OF r] have "train_ensemble_fallback sk s lags = Inr (m, l)" by auto
    from train_fallback_Inr [OF this] True show ?thesis by simp
  next
    case False
    with train_model_cases [OF r] have "train_ensemble_try sk s lags = Inr (m, l)" by auto
    from train_try_Inr [OF this] obtain Xy rf_model gb_model rf_score gb_score where
      h: "rf_fit sk Xy = Inr rf_model" "gb_fit sk Xy = Inr gb_model"
         "score sk rf_model Xy = Inr rf_score" "score sk gb_model Xy = Inr gb_score"
         "weights m = ensemble_weights rf_score gb_score"
      by blast
    have w: "weights m = (if 0 < fadd rf_score gb_score
                        then (fdiv rf_score (fadd rf_score gb_score),
                              fdiv gb_score (fadd rf_score gb_score))
                        else (1 / 2, 1 / 2))"
      by (simp add: h(5) ensemble_weights_def Let_def)
    have n: "rf_score < 0 \<and> 0 < fadd rf_score gb_score \<longrightarrow> fst (weights m) \<le> 0"
      using ensemble_weights_negative [of rf_score gb_score] by (simp add: h(5))
    have e: "\<not> 0 < fadd rf_score gb_score \<longrightarrow> fst (weights m) + snd (weights m) = 1"
      by (simp add: w)
    have "\<exists>Xy rf_model gb_model rf_score gb_score.
           rf_fit sk Xy = Inr rf_model \<and> gb_fit sk Xy = Inr gb_model \<and>
           score sk rf_model Xy = Inr rf_score \<and> score sk gb_model Xy = Inr gb_score \<and>
           weights m = (if 0 < fadd rf_score gb_score
                        then (fdiv rf_score (fadd rf_score gb_score),
                              fdiv gb_score (fadd rf_score gb_score))
                        else (1 / 2, 1 / 2)) \<and>
           (rf_score < 0 \<and> 0 < fadd rf_score gb_score \<longrightarrow> fst (weights m) \<le> 0) \<and>
           (\<not> 0 < fadd rf_score gb_score \<longrightarrow> fst (weights m) + snd (weights m) = 1)"
      apply (rule exI [of _ Xy], rule exI [of _ rf_model], rule exI [of _ gb_model])
      apply (rule exI [of _ rf_score], rule exI [of _ gb_score])
      using h(1-4) w n e by blast
    with False show ?thesis by blast
  qed
  from A train_model_Inl [of sk s lags] show ?thesis by blast
qed

text \<open>
  Scores -0.25 and 0.75: the sum is 0.5 and the run returns the weights -0.5 and 1.5.
\<close>

theorem weight_pair_invariant_witness:
  "train_ensemble_model (c3_sklearn (- (1 / 4)) (3 / 4)) c3_series 24 =
     Inr (\<lparr>rf = True, gb = Some False, weights = (- (1 / 2), 3 / 2)\<rparr>, 10) \<and>
   fadd (- (1 / 4)) (3 / 4) = 1 / 2 \<and>
   (- (1 / 2), 3 / 2) = (fdiv (- (1 / 4)) (1 / 2), fdiv (3 / 4) (1 / 2))"
proof -
  have t: "train_ensemble_model (c3_sklearn (- (1 / 4)) (3 / 4)) c3_series 24 =
          Inr (\<lparr>rf = True, gb = Some False, weights = (- (1 / 2), 3 / 2)\<rparr>, 10)"
    by (simp add: c3_train weights_negative_quarter)
  have a: "fadd (- (1 / 4)) (3 / 4) = 1 / 2"
    by (simp add: fadd_def round_float_def float_exponent_def exponent_down.simps pow2_def
        round_half_even_def Let_def)
  have g: "gb \<lparr>rf = True, gb = Some False, weights = (- (1 / 2), 3 / 2 :: real)\<rparr> \<noteq> None"
    by simp
  from weight_pair_invariant [of "c3_sklearn (- (1 / 4)) (3 / 4)" c3_series 24] t g
  obtain Xy rf_model gb_model rf_score gb_score where
    h: "rf_fit (c3_sklearn (- (1 / 4)) (3 / 4)) Xy = Inr rf_model"
       "gb_fit (c3_sklearn (- (1 / 4)) (3 / 4)) Xy = Inr gb_model"
       "score (c3_sklearn (- (1 / 4)) (3 / 4)) rf_model Xy = Inr rf_score"
       "score (c3_sklearn (- (1 / 4)) (3 / 4)) gb_model Xy = Inr gb_score"
       "weights \<lparr>rf = True, gb = Some False, weights = (- (1 / 2), 3 / 2 :: real)\<rparr> =
          (if 0 < fadd rf_score gb_score
           then (fdiv rf_score (fadd rf_score gb_score), fdiv gb_score (fadd rf_score gb_score))
           else (1 / 2, 1 / 2))"
    by blast
  from h(1,2) have md: "rf_model = True" "gb_model = False"
    by (auto simp: c3_sklearn_def fit_unless_empty_def split: if_splits)
  from h(3,4) have sc: "rf_score = - (1 / 4)" "gb_score = 3 / 4"
    unfolding md by (simp_all add: c3_sklearn_def)
  from h(5) have "(- (1 / 2), 3 / 2 :: real) =
          (if 0 < fadd rf_score gb_score
           then (fdiv rf_score (fadd rf_score gb_score), fdiv gb_score (fadd rf_score gb_score))
           else (1 / 2, 1 / 2))"
    by (simp only: models.select_convs)
  then have "(- (1 / 2), 3 / 2 :: real) = (fdiv (- (1 / 4)) (1 / 2), fdiv (3 / 4) (1 / 2))"
    unfolding sc a by (simp only: if_True half_gt_zero_iff zero_less_one)
  with t a show ?thesis by (intro conjI)
qed

text \<open>
  With the training scores 0.529 and 0.7537 the two weights are floats whose sum is not
  one, exactly or as a float sum; and on the empty series, where the library rejects the
  empty design, training raises instead of returning.
\<close>

theorem weight_pair_invariant_counterexample:
  "train_ensemble_model (c3_sklearn float_0_529 float_0_7537) c3_series 24 =
     Inr (\<lparr>rf = True, gb = Some False,
           weights = (1857335466499565 / 4503599627370496,
                      5292528321741861 / 9007199254740992)\<rparr>, 10) \<and>
   (1857335466499565 / 4503599627370496 + 5292528321741861 / 9007199254740992 :: real) \<noteq> 1 \<and>
   fadd (1857335466499565 / 4503599627370496) (5292528321741861 / 9007199254740992) \<noteq> 1 \<and>
   train_ensemble_model (c3_sklearn float_0_529 float_0_7537) [] 24 =
     Inl (ValueError ''Found array with 0 sample(s)'')"
proof -
  have 1: "train_ensemble_model (c3_sklearn float_0_529 float_0_7537) c3_series 24 =
     Inr (\<lparr>rf = True, gb = Some False,
           weights = (1857335466499565 / 4503599627370496,
                      5292528321741861 / 9007199254740992)\<rparr>, 10)"
    by (simp add: c3_train weights_rounded)
  have 2: "(1857335466499565 / 4503599627370496 + 5292528321741861 / 9007199254740992 :: real) \<noteq> 1"
    by simp
  have 3: "fadd (1857335466499565 / 4503599627370496) (5292528321741861 / 9007199254740992) \<noteq> 1"
    by (simp add: fadd_def round_float_def float_exponent_def exponent_down.simps pow2_def
        round_half_even_def Let_def)
  from 1 2 3 empty_train [of float_0_529 float_0_7537] show ?thesis by simp
qed


section \<open>Verified properties: free-text resolution\<close>

lemma try_geocoders_first: "try_geocoders gs v = first_found (map (\<lambda>g. snd g v) gs)"
proof (induction gs)
  case Nil
  show ?case by simp
next
  case (Cons g gs)
  obtain n f where g: "g = (n, f)" by (cases g)
  show ?case
  proof (cases "f v")
    case (Inl e)
    with Cons g show ?thesis by simp
  next
    case (Inr o1)
    with Cons g show ?thesis by (cases o1) simp_all
  qed
qed

lemma first_found_append:
  "first_found (xs @ ys) = (case first_found xs of Some r \<Rightarrow> Some r | None \<Rightarrow> first_found ys)"
  by (induction xs rule: first_found.induct) simp_all

lemma try_variations_first:
  "try_variations gs vs = first_found (attempts_by_variation gs vs)"
  by (induction vs)
    (simp_all add: attempts_by_variation_def first_found_append try_geocoders_first
      split: option.splits)


lemma strip_head: "strip s = [] \<or> \<not> isspace (hd (strip s))"
proof -
  define u where "u = dropWhile isspace s"
  have u: "u = [] \<or> \<not> isspace (hd u)"
    unfolding u_def by (metis hd_dropWhile)
  show ?thesis
  proof (cases u)
    case Nil
    then show ?thesis by (simp add: strip_def u_def [symmetric])
  next
    case (Cons x u')
    with u have x: "\<not> isspace x" by simp
    have "\<exists>w. dropWhile isspace (rev u' @ [x]) = w @ [x]"
      using x by (simp add: dropWhile_append)
    then obtain w where "dropWhile isspace (rev u) = w @ [x]" using Cons by auto
    then have "strip s = x # rev w" by (simp add: strip_def u_def [symmetric])
    with x show ?thesis by simp
  qed
qed

lemma strip_idem: "strip (strip s) = strip s"
proof -
  have "dropWhile isspace (strip s) = strip s"
    using strip_head [of s] by (cases "strip s") auto
  then show ?thesis
    by (simp add: strip_def [of "strip s"]) (simp add: strip_def)
qed


lemma geocode_location_first:
  assumes "strip q \<noteq> []"
  shows "geocode_location ps q key =
           (case first_found (attempts_by_variation (geocoders ps key) (try_with_variations q)) of
              Some result \<Rightarrow> Inr result
            | None \<Rightarrow> Inl (ValueError (not_found_message (strip q))))"
proof -
  have "try_with_variations (strip q) = try_with_variations q"
    by (simp add: try_with_variations_def strip_idem)
  with assms show ?thesis
    by (simp add: geocode_location_def Let_def try_variations_first)
qed

lemma two_providers_variations:
  "try_with_variations ''Springfield'' =
     [''Springfield'', ''Springfield, India'', ''Springfield, USA'',
      ''Springfield, United States'', ''Springfield, UK'', ''Springfield, United Kingdom'',
      ''Springfield, Canada'', ''Springfield, Australia'', ''Springfield, Germany'',
      ''Springfield, France'']"
  by (simp add: try_with_variations_def strip_def isspace_def country_suffixes_def)

lemma two_providers_geocoders:
  "geocoders two_providers None =
     [(''Open-Meteo'', \<lambda>q. if q = ''Springfield, India'' then Inr (Some place_a) else Inr None),
      (''Nominatim'', \<lambda>q. if q = ''Springfield'' then Inr (Some place_b) else Inr None),
      (''GeoCode.xyz'', \<lambda>q. Inr None)]"
  by (simp add: geocoders_def two_providers_def)


lemma first_found_None: "first_found rs = None \<Longrightarrow> Inr (Some r) \<notin> set rs"
  by (induction rs rule: first_found.induct) auto

text \<open>
  Claim C7, as the code has it. The providers are in a fixed order, the paid one first
  when a non-empty key is configured and then the three free ones. The texts tried are
  the trimmed original followed by the nine country-suffixed variants, and the variants
  exist only when the trimmed text has no comma. The iteration is variation by variation:
  for each text in turn every provider is asked in priority order, and the result is the
  first place found in that order.
\<close>

theorem geocoding_attempt_order:
  "map fst (geocoders ps key) =
     (if key = None \<or> key = Some [] then [] else [''Google Maps'']) @
     [''Open-Meteo'', ''Nominatim'', ''GeoCode.xyz''] \<and>
   try_with_variations q =
     strip q # (if CHR 0x2C \<in> set (strip q) then []
                else map (\<lambda>c. strip q @ '', '' @ c) country_suffixes) \<and>
   (strip q \<noteq> [] \<longrightarrow>
      geocode_location ps q key =
        (case first_found (attempts_by_variation (geocoders ps key) (try_with_variations q)) of
           Some result \<Rightarrow> Inr result
         | None \<Rightarrow> Inl (ValueError (not_found_message (strip q)))))"
proof (intro conjI impI)
  show "map fst (geocoders ps key) =
     (if key = None \<or> key = Some [] then [] else [''Google Maps'']) @
     [''Open-Meteo'', ''Nominatim'', ''GeoCode.xyz'']"
    by (cases key) (simp_all add: geocoders_def)
  show "try_with_variations q =
     strip q # (if CHR 0x2C \<in> set (strip q) then []
                else map (\<lambda>c. strip q @ '', '' @ c) country_suffixes)"
    by (simp add: try_with_variations_def Let_def)
  show "geocode_location ps q key =
        (case first_found (attempts_by_variation (geocoders ps key) (try_with_variations q)) of
           Some result \<Rightarrow> Inr result
         | None \<Rightarrow> Inl (ValueError (not_found_message (strip q))))" if "strip q \<noteq> []"
    using that by (rule geocode_location_first)
qed

text \<open>
  The order at work: for "Springfield" the bare name is tried with every provider before
  any suffixed variant, so the second free provider's answer is returned.
\<close>

theorem geocoding_attempt_order_witness:
  "strip ''Springfield'' \<noteq> [] \<and>
   geocode_location two_providers ''Springfield'' None = Inr place_b"
proof -
  have s: "strip ''Springfield'' \<noteq> []"
    by (simp add: strip_def isspace_def)
  from geocoding_attempt_order [of two_providers None "''Springfield''"] s
  have "geocode_location two_providers ''Springfield'' None =
        (case first_found (attempts_by_variation (geocoders two_providers None)
                (try_with_variations ''Springfield'')) of
           Some result \<Rightarrow> Inr result
         | None \<Rightarrow> Inl (ValueError (not_found_message (strip ''Springfield''))))"
    by blast
  then show ?thesis using s
    by (simp add: two_providers_variations two_providers_geocoders attempts_by_variation_def)
qed

text \<open>
  Provider by provider, as the claim words the order, the first free provider's answer
  for "Springfield, India" would come first; the code returns the other place.
\<close>

theorem geocoding_attempt_order_counterexample:
  "geocode_location two_providers ''Springfield'' None = Inr place_b \<and>
   first_found (attempts_by_provider (geocoders two_providers None)
      (try_with_variations ''Springfield'')) = Some place_a \<and>
   place_a \<noteq> place_b"
proof -
  have s: "strip ''Springfield'' \<noteq> []"
    by (simp add: strip_def isspace_def)
  have 1: "geocode_location two_providers ''Springfield'' None = Inr place_b"
    by (simp add: geocode_location_first [OF s] two_providers_variations two_providers_geocoders
        attempts_by_variation_def)
  have 2: "first_found (attempts_by_provider (geocoders two_providers None)
      (try_with_variations ''Springfield'')) = Some place_a"
    by (simp add: two_providers_variations two_providers_geocoders attempts_by_provider_def)
  have 3: "place_a \<noteq> place_b"
    by (simp add: place_a_def place_b_def)
  from 1 2 3 show ?thesis by simp
qed

subsection \<open>The provider functions and the outcomes\<close>











lemma pune_variations:
  "try_with_variations ''Pune'' =
     [''Pune'', ''Pune, India'', ''Pune, USA'', ''Pune, United States'', ''Pune, UK'',
      ''Pune, United Kingdom'', ''Pune, Canada'', ''Pune, Australia'', ''Pune, Germany'',
      ''Pune, France'']"
  by (simp add: try_with_variations_def strip_def isspace_def country_suffixes_def)

lemma pune_found:
  "geocode_openmeteo_impl pune_http ''Pune'' = Inr (Some pune)"
  by (simp add: geocode_openmeteo_impl_def pune_http_def pune_reply_def and_then_def pune_def)


lemma module_geocoders_None:
  "geocoders (module_geocoders http) None =
     [(''Open-Meteo'', geocode_openmeteo_impl http),
      (''Nominatim'', geocode_nominatim_impl http),
      (''GeoCode.xyz'', geocode_geocodexyz_impl http)]"
  by (simp add: geocoders_def module_geocoders_def)

lemma pune_located:
  "geocode_location (module_geocoders pune_http) ''Pune'' None = Inr pune"
proof -
  have s: "strip ''Pune'' \<noteq> []" by (simp add: strip_def isspace_def)
  show ?thesis
    unfolding geocode_location_first [OF s] pune_variations module_geocoders_None
    by (simp add: attempts_by_variation_def pune_found)
qed









section \<open>Verified properties: reverse resolution\<close>

lemma replicate_numeral: "replicate (numeral k) x = x # replicate (pred_numeral k) x"
  by (simp add: numeral_eq_Suc)

lemma digit_char_props: "n < 10 \<Longrightarrow> is_digit (digit_char n) \<and> digit_value (digit_char n) = n"
proof -
  assume "n < 10"
  then have "n \<in> {0, 1, 2, 3, 4, 5, 6, 7, 8, 9}" by auto
  then show ?thesis
    by (auto simp: digit_char_def is_digit_def digit_value_def)
qed

lemma read_nat_snoc: "read_nat (s @ [c]) = 10 * read_nat s + digit_value c"
  by (simp add: read_nat_def)

lemma show_nat_digits: "\<forall>c \<in> set (show_nat n). is_digit c"
proof (induction n rule: show_nat.induct)
  case (1 n)
  show ?case
  proof (cases "n < 10")
    case True
    then show ?thesis by (simp add: show_nat.simps [of n] digit_char_props)
  next
    case False
    have "n mod 10 < 10" by simp
    with 1 False show ?thesis
      by (simp add: show_nat.simps [of n] digit_char_props)
  qed
qed

lemma show_nat_nonempty: "show_nat n \<noteq> []"
  by (simp add: show_nat.simps [of n])

lemma read_show_nat: "read_nat (show_nat n) = n"
proof (induction n rule: show_nat.induct)
  case (1 n)
  show ?case
  proof (cases "n < 10")
    case True
    then show ?thesis
      by (simp add: show_nat.simps [of n] read_nat_def digit_char_props)
  next
    case False
    have "n mod 10 < 10" by simp
    then have "digit_value (digit_char (n mod 10)) = n mod 10"
      by (simp add: digit_char_props)
    with 1 False show ?thesis
      by (simp add: show_nat.simps [of n] read_nat_snoc)
  qed
qed

lemma length_show_nat: "n < 10 ^ k \<Longrightarrow> 0 < k \<Longrightarrow> length (show_nat n) \<le> k"
proof (induction n arbitrary: k rule: show_nat.induct)
  case (1 n)
  show ?case
  proof (cases "n < 10")
    case True
    with 1(3) show ?thesis by (simp add: show_nat.simps [of n])
  next
    case False
    with 1(2) have k: "1 < k" by (cases "k = 1") (use 1(3) in auto)
    then obtain j where j: "k = Suc j" "0 < j" by (cases k) auto
    from 1(2) j have "n div 10 < 10 ^ j"
      by (simp add: less_mult_imp_div_less mult.commute)
    from 1(1) [OF False this j(2)] j False show ?thesis
      by (simp add: show_nat.simps [of n])
  qed
qed

lemma read_nat_padded: "read_nat (replicate j (CHR ''0'') @ s) = read_nat s"
proof -
  have "foldl (\<lambda>n c. 10 * n + digit_value c) 0 (replicate j (CHR ''0'')) = 0"
    by (induction j) (simp_all add: digit_value_def)
  then show ?thesis by (simp add: read_nat_def)
qed

lemma round_half_even_close: "\<bar>real_of_int (round_half_even y) - y\<bar> \<le> 1 / 2"
proof -
  have f: "real_of_int \<lfloor>y\<rfloor> \<le> y" "y < real_of_int \<lfloor>y\<rfloor> + 1"
    by linarith+
  show ?thesis
    unfolding round_half_even_def Let_def using f
    by (simp only: split: if_splits) (intro conjI impI; simp; linarith)
qed

lemma round_half_even_nonneg: "0 \<le> y \<Longrightarrow> 0 \<le> round_half_even y"
proof -
  assume "0 \<le> y"
  then have f: "0 \<le> \<lfloor>y\<rfloor>" by simp
  have pick: "(0::int) \<le> (if A then f else if B then f + 1 else if C then f else f + 1)"
    if "0 \<le> f" for A B C f
    using that by auto
  from pick [OF f] show ?thesis
    unfolding round_half_even_def Let_def .
qed

lemma format_fixed_reads:
  "\<exists>ip fp. format_fixed 4 x = (if x < 0 then ''-'' else []) @ ip @ ''.'' @ fp \<and>
      ip \<noteq> [] \<and> length fp = 4 \<and> (\<forall>c \<in> set (ip @ fp). is_digit c) \<and>
      int (read_nat ip * 10000 + read_nat fp) = round_half_even (\<bar>x\<bar> * 10000) \<and>
      \<bar>real (read_nat ip) + real (read_nat fp) / 10000 - \<bar>x\<bar>\<bar> \<le> 1 / 20000"
proof -
  define n where "n = nat (round_half_even (\<bar>x\<bar> * 10 ^ 4))"
  define ip where "ip = show_nat (n div 10 ^ 4)"
  define f where "f = show_nat (n mod 10 ^ 4)"
  define fp where "fp = replicate (4 - length f) (CHR ''0'') @ f"
  have lf: "length f \<le> 4"
    unfolding f_def by (rule length_show_nat) simp_all
  then have l4: "length fp = 4" by (simp add: fp_def)
  have fmt: "format_fixed 4 x = (if x < 0 then ''-'' else []) @ ip @ ''.'' @ fp"
    by (simp add: format_fixed_def Let_def n_def ip_def f_def fp_def)
  have z: "is_digit (CHR ''0'')"
    by (simp add: is_digit_def)
  have dig: "\<forall>c \<in> set (ip @ fp). is_digit c"
    using show_nat_digits [of "n div 10 ^ 4"] show_nat_digits [of "n mod 10 ^ 4"] z
    unfolding ip_def fp_def f_def by auto
  have rip: "read_nat ip = n div 10 ^ 4"
    by (simp add: ip_def read_show_nat)
  have rfp: "read_nat fp = n mod 10 ^ 4"
    by (simp add: fp_def read_nat_padded f_def read_show_nat)
  have tot: "read_nat ip * 10000 + read_nat fp = n"
    by (simp add: rip rfp)
  have nn: "0 \<le> round_half_even (\<bar>x\<bar> * 10 ^ 4)"
    by (rule round_half_even_nonneg) simp
  then have n_int: "int n = round_half_even (\<bar>x\<bar> * 10000)"
    by (simp add: n_def)
  define e where "e = real_of_int (round_half_even (\<bar>x\<bar> * 10000)) - \<bar>x\<bar> * 10000"
  have rn: "real n = real_of_int (round_half_even (\<bar>x\<bar> * 10000))"
    using n_int by (metis of_int_of_nat_eq)
  have "real (read_nat ip) * 10000 + real (read_nat fp) = real n"
    using tot by (metis of_nat_add of_nat_mult of_nat_numeral)
  then have v: "real (read_nat ip) + real (read_nat fp) / 10000 - \<bar>x\<bar> = e / 10000"
    unfolding e_def rn [symmetric] by (simp add: field_simps)
  have eb: "\<bar>e\<bar> \<le> 1 / 2"
    unfolding e_def by (rule round_half_even_close)
  have "\<bar>e / 10000\<bar> = \<bar>e\<bar> / 10000" by simp
  with eb have "\<bar>e / 10000\<bar> \<le> 1 / 20000" by simp
  then have cl: "\<bar>real (read_nat ip) + real (read_nat fp) / 10000 - \<bar>x\<bar>\<bar> \<le> 1 / 20000"
    by (simp only: v)
  have "ip \<noteq> []" by (simp add: ip_def show_nat_nonempty)
  with fmt l4 dig tot n_int cl show ?thesis
    by (intro exI [of _ ip] exI [of _ fp]) simp
qed

lemma show_nat_small: "show_nat 0 = ''0''" "show_nat 18 = ''18''" "show_nat 5000 = ''5000''"
  "show_nat 312 = ''312''"
  by (simp_all add: show_nat.simps digit_char_def)

lemma format_fixed_examples:
  "format_fixed 4 18.5 = ''18.5000''" "format_fixed 4 (- 0.03125) = ''-0.0312''"
  by (simp_all add: format_fixed_def round_half_even_def Let_def show_nat_small
      replicate_numeral)


lemma format_fixed_zero: "format_fixed 4 0 = ''0.0000''"
  by (simp add: format_fixed_def round_half_even_def Let_def show_nat_small replicate_numeral)

lemma try_reverse_None:
  "(\<forall>g \<in> set gs. \<forall>p. snd g \<noteq> Inr (Some p)) \<Longrightarrow> try_reverse_geocoders gs = None"
proof (induction gs)
  case Nil
  show ?case by simp
next
  case (Cons g gs)
  obtain n r where g: "g = (n, r)" by (cases g)
  from Cons.prems g have "\<forall>p. r \<noteq> Inr (Some p)" by simp
  moreover from Cons have "try_reverse_geocoders gs = None" by simp
  ultimately show ?case using g
    by (cases r) (auto split: option.splits)
qed

text \<open>
  Claim C8. For all coordinates, every key setting and all provider behaviours, a raising
  provider included, \<^verbatim>\<open>reverse_geocode\<close> returns normally. When no provider yields a place
  the result is the fallback: name and display name are the two coordinates, each
  formatted with four decimals, joined by a comma and a space; country and city are
  absent. A formatted coordinate is a minus sign for a negative number, then the digits
  of the integer part, a point and exactly four digits; read back, these digits are the
  absolute value times 10000 rounded to the nearest integer, a tie going to the even one,
  so the number shown is within 0.00005 of the coordinate.
\<close>

theorem reverse_geocode_total:
  "(\<exists>result. reverse_geocode rp lat lon key = Inr result) \<and>
   ((\<forall>g \<in> set (reverse_geocoders rp lat lon key). \<forall>p. snd g \<noteq> Inr (Some p)) \<longrightarrow>
      reverse_geocode rp lat lon key =
        Inr \<lparr>place_name = format_fixed 4 lat @ '', '' @ format_fixed 4 lon,
             place_display_name = format_fixed 4 lat @ '', '' @ format_fixed 4 lon,
             place_country = None, place_city = None,
             place_latitude = lat, place_longitude = lon\<rparr>) \<and>
   (\<forall>x. \<exists>ip fp.
      format_fixed 4 x = (if x < 0 then ''-'' else []) @ ip @ ''.'' @ fp \<and>
      ip \<noteq> [] \<and> length fp = 4 \<and> (\<forall>c \<in> set (ip @ fp). is_digit c) \<and>
      int (read_nat ip * 10000 + read_nat fp) = round_half_even (\<bar>x\<bar> * 10000) \<and>
      \<bar>real (read_nat ip) + real (read_nat fp) / 10000 - \<bar>x\<bar>\<bar> \<le> 1 / 20000)"
proof (intro conjI allI)
  show "\<exists>result. reverse_geocode rp lat lon key = Inr result"
    by (simp add: reverse_geocode_def split: option.splits)
  show "(\<forall>g \<in> set (reverse_geocoders rp lat lon key). \<forall>p. snd g \<noteq> Inr (Some p)) \<longrightarrow>
      reverse_geocode rp lat lon key =
        Inr \<lparr>place_name = format_fixed 4 lat @ '', '' @ format_fixed 4 lon,
             place_display_name = format_fixed 4 lat @ '', '' @ format_fixed 4 lon,
             place_country = None, place_city = None,
             place_latitude = lat, place_longitude = lon\<rparr>"
    by (simp add: reverse_geocode_def try_reverse_None)
  show "\<exists>ip fp.
      format_fixed 4 x = (if x < 0 then ''-'' else []) @ ip @ ''.'' @ fp \<and>
      ip \<noteq> [] \<and> length fp = 4 \<and> (\<forall>c \<in> set (ip @ fp). is_digit c) \<and>
      int (read_nat ip * 10000 + read_nat fp) = round_half_even (\<bar>x\<bar> * 10000) \<and>
      \<bar>real (read_nat ip) + real (read_nat fp) / 10000 - \<bar>x\<bar>\<bar> \<le> 1 / 20000" for x
    by (rule format_fixed_reads)
qed

text \<open>
  The point (18.5, -0.03125) with three failing providers resolves to
  "18.5000, -0.0312": the longitude is a tie and goes to the even digit.
\<close>

theorem reverse_geocode_total_witness:
  "map snd (reverse_geocoders failing_reverse_providers 18.5 (- 0.03125) (Some ''key'')) =
     [Inl (ValueError ''bad response''), Inr None, Inl (OtherException ''timeout'')] \<and>
   reverse_geocode failing_reverse_providers 18.5 (- 0.03125) (Some ''key'') =
     Inr \<lparr>place_name = ''18.5000, -0.0312'', place_display_name = ''18.5000, -0.0312'',
          place_country = None, place_city = None,
          place_latitude = 18.5, place_longitude = - 0.03125\<rparr>"
proof -
  have g: "map snd (reverse_geocoders failing_reverse_providers 18.5 (- 0.03125) (Some ''key'')) =
     [Inl (ValueError ''bad response''), Inr None, Inl (OtherException ''timeout'')]"
    by (simp add: reverse_geocoders_def failing_reverse_providers_def)
  have h: "\<forall>g \<in> set (reverse_geocoders failing_reverse_providers 18.5 (- 0.03125) (Some ''key'')).
      \<forall>p. snd g \<noteq> Inr (Some p)"
    by (simp add: reverse_geocoders_def failing_reverse_providers_def)
  note imp = reverse_geocode_total [of failing_reverse_providers "18.5" "- 0.03125" "Some ''key''",
      THEN conjunct2, THEN conjunct1]
  from imp h
  have "reverse_geocode failing_reverse_providers 18.5 (- 0.03125) (Some ''key'') =
        Inr \<lparr>place_name = format_fixed 4 18.5 @ '', '' @ format_fixed 4 (- 0.03125),
             place_display_name = format_fixed 4 18.5 @ '', '' @ format_fixed 4 (- 0.03125),
             place_country = None, place_city = None,
             place_latitude = 18.5, place_longitude = - 0.03125\<rparr>"
    by (rule mp)
  then have "reverse_geocode failing_reverse_providers 18.5 (- 0.03125) (Some ''key'') =
     Inr \<lparr>place_name = ''18.5000, -0.0312'', place_display_name = ''18.5000, -0.0312'',
          place_country = None, place_city = None,
          place_latitude = 18.5, place_longitude = - 0.03125\<rparr>"
    by (simp only: format_fixed_examples append.simps)
  with g show ?thesis by (intro conjI)
qed

section \<open>Verified properties: autocomplete\<close>

lemma first_per_cell_subset: "set (first_per_cell xs) \<subseteq> set xs"
  by (induction xs rule: first_per_cell.induct) auto

lemma first_per_cell_distinct: "distinct (map coord_key (first_per_cell xs))"
proof (induction xs rule: first_per_cell.induct)
  case 1
  show ?case by simp
next
  case (2 s rest)
  have "coord_key s \<notin> coord_key ` set (first_per_cell (filter (\<lambda>t. coord_key t \<noteq> coord_key s) rest))"
    using first_per_cell_subset [of "filter (\<lambda>t. coord_key t \<noteq> coord_key s) rest"] by auto
  with 2 show ?case by simp
qed

lemma find_filter_weaker:
  "(\<And>t. P t \<Longrightarrow> Q t) \<Longrightarrow> List.find P (filter Q xs) = List.find P xs"
  by (induction xs) auto

lemma first_per_cell_earliest:
  "s \<in> set (first_per_cell xs) \<Longrightarrow> List.find (\<lambda>t. coord_key t = coord_key s) xs = Some s"
proof (induction xs rule: first_per_cell.induct)
  case 1
  then show ?case by simp
next
  case (2 a rest)
  show ?case
  proof (cases "s = a")
    case True
    then show ?thesis by simp
  next
    case False
    with 2(2) have m: "s \<in> set (first_per_cell (filter (\<lambda>t. coord_key t \<noteq> coord_key a) rest))"
      by simp
    with first_per_cell_subset have "s \<in> set (filter (\<lambda>t. coord_key t \<noteq> coord_key a) rest)"
      by blast
    then have ne: "coord_key s \<noteq> coord_key a" by simp
    from 2(1) [OF m] have "List.find (\<lambda>t. coord_key t = coord_key s)
        (filter (\<lambda>t. coord_key t \<noteq> coord_key a) rest) = Some s" .
    then have "List.find (\<lambda>t. coord_key t = coord_key s) rest = Some s"
      using ne by (subst (asm) find_filter_weaker) auto
    with ne show ?thesis by auto
  qed
qed

lemma deduplicate_eq:
  "length unique < limit \<Longrightarrow>
   deduplicate xs limit unique seen =
     unique @ take (limit - length unique) (first_per_cell (filter (\<lambda>t. coord_key t \<notin> seen) xs))"
proof (induction xs arbitrary: unique seen)
  case Nil
  show ?case by simp
next
  case (Cons s rest)
  show ?case
  proof (cases "coord_key s \<in> seen")
    case True
    with Cons show ?thesis by simp
  next
    case False
    have f: "filter (\<lambda>t. coord_key t \<noteq> coord_key s) (filter (\<lambda>t. coord_key t \<notin> seen) rest) =
             filter (\<lambda>t. coord_key t \<notin> insert (coord_key s) seen) rest"
      by (induction rest) auto
    show ?thesis
    proof (cases "Suc (length unique) \<ge> limit")
      case True
      with Cons.prems have "limit - length unique = Suc 0" by simp
      with True False show ?thesis by simp
    next
      case False
      note lt = this
      then have "length (unique @ [s]) < limit" by simp
      from Cons.IH [OF this, of "insert (coord_key s) seen"]
      have "deduplicate rest limit (unique @ [s]) (insert (coord_key s) seen) =
            (unique @ [s]) @ take (limit - length (unique @ [s]))
               (first_per_cell (filter (\<lambda>t. coord_key t \<notin> insert (coord_key s) seen) rest))" .
      moreover have "limit - length unique = Suc (limit - length (unique @ [s]))"
        using lt by simp
      moreover have "filter (\<lambda>x. coord_key x \<notin> seen \<and> coord_key x \<noteq> coord_key s) rest =
            filter (\<lambda>t. coord_key t \<noteq> coord_key s \<and> coord_key t \<notin> seen) rest"
        by (rule filter_cong) auto
      ultimately show ?thesis
        using \<open>coord_key s \<notin> seen\<close> lt by (simp add: f)
    qed
  qed
qed

lemma length_map_filter_le: "length (List.map_filter f xs) \<le> length xs"
  by (simp add: List.map_filter_def)

lemma autocomplete_openmeteo_length: "length (autocomplete_openmeteo http q limit) \<le> limit"
proof (cases "search_openmeteo http q limit")
  case (Inl e)
  then show ?thesis by (simp add: autocomplete_openmeteo_def)
next
  case (Inr results)
  have "length (List.map_filter openmeteo_suggestion (take limit results)) \<le> length (take limit results)"
    by (rule length_map_filter_le)
  with Inr show ?thesis by (simp add: autocomplete_openmeteo_def)
qed

lemma all_suggestions_zero: "all_suggestions http q 0 key = []"
  using autocomplete_openmeteo_length [of http q 0]
  by (simp add: all_suggestions_def Let_def)

lemma deduplicate_all:
  "deduplicate (all_suggestions http q limit key) limit [] {} =
     take limit (first_per_cell (all_suggestions http q limit key))"
proof (cases "limit = 0")
  case True
  then show ?thesis by (simp add: all_suggestions_zero)
next
  case False
  then have "length ([] :: suggestion list) < limit" by simp
  from deduplicate_eq [OF this] show ?thesis by simp
qed


lemma all_suggestions_shape:
  "all_suggestions http q limit key = autocomplete_openmeteo http q limit \<or>
   all_suggestions http q limit key =
     autocomplete_openmeteo http q limit @ autocomplete_nominatim http q limit \<or>
   all_suggestions http q limit key =
     autocomplete_openmeteo http q limit @ autocomplete_nominatim http q limit @
     autocomplete_google_maps http q key limit"
  by (simp add: all_suggestions_def Let_def)

lemma all_suggestions_stop:
  "limit \<le> length (autocomplete_openmeteo http q limit) \<Longrightarrow>
   all_suggestions http q limit key = autocomplete_openmeteo http q limit"
  by (simp add: all_suggestions_def Let_def)

lemma all_suggestions_stop2:
  "limit \<le> length (autocomplete_openmeteo http q limit @ autocomplete_nominatim http q limit) \<Longrightarrow>
   all_suggestions http q limit key = autocomplete_openmeteo http q limit \<or>
   all_suggestions http q limit key =
     autocomplete_openmeteo http q limit @ autocomplete_nominatim http q limit"
  by (simp add: all_suggestions_def Let_def)

text \<open>
  Claim C9. In the list returned by \<^verbatim>\<open>get_autocomplete_suggestions\<close> no two suggestions
  have the same coordinates rounded to three decimals; the list is never longer than the
  limit; every suggestion returned is the earliest one of its cell among the collected
  suggestions, which are in provider order; for a query of at least two characters the
  list is exactly the first \<open>limit\<close> cell representatives. Collection stops once the limit
  is reached: when the first provider already yields \<open>limit\<close> suggestions nothing else is
  collected, and when the first two do the paid provider is not asked.
\<close>

theorem autocomplete_deduplication:
  "distinct (map coord_key (get_autocomplete_suggestions http query limit key)) \<and>
   length (get_autocomplete_suggestions http query limit key) \<le> limit \<and>
   (\<forall>s \<in> set (get_autocomplete_suggestions http query limit key).
      List.find (\<lambda>t. coord_key t = coord_key s) (all_suggestions http (strip query) limit key)
        = Some s) \<and>
   (query \<noteq> [] \<and> 2 \<le> length (strip query) \<longrightarrow>
      get_autocomplete_suggestions http query limit key =
        take limit (first_per_cell (all_suggestions http (strip query) limit key))) \<and>
   (limit \<le> length (autocomplete_openmeteo http (strip query) limit) \<longrightarrow>
      all_suggestions http (strip query) limit key =
        autocomplete_openmeteo http (strip query) limit) \<and>
   (limit \<le> length (autocomplete_openmeteo http (strip query) limit @
                     autocomplete_nominatim http (strip query) limit) \<longrightarrow>
      all_suggestions http (strip query) limit key =
        autocomplete_openmeteo http (strip query) limit \<or>
      all_suggestions http (strip query) limit key =
        autocomplete_openmeteo http (strip query) limit @
        autocomplete_nominatim http (strip query) limit)"
proof -
  let ?coll = "all_suggestions http (strip query) limit key"
  let ?out = "get_autocomplete_suggestions http query limit key"
  have out: "?out = [] \<or> ?out = take limit (first_per_cell ?coll)"
    by (simp add: get_autocomplete_suggestions_def deduplicate_all)
  have d: "distinct (map coord_key (take limit (first_per_cell ?coll)))"
    using first_per_cell_distinct [of ?coll] by (simp add: take_map [symmetric])
  have 1: "distinct (map coord_key ?out)"
    using out d by auto
  have 2: "length ?out \<le> limit"
    using out by auto
  have 3: "\<forall>s \<in> set ?out. List.find (\<lambda>t. coord_key t = coord_key s) ?coll = Some s"
  proof
    fix s assume "s \<in> set ?out"
    with out have "s \<in> set (take limit (first_per_cell ?coll))" by auto
    then have "s \<in> set (first_per_cell ?coll)" by (rule in_set_takeD)
    then show "List.find (\<lambda>t. coord_key t = coord_key s) ?coll = Some s"
      by (rule first_per_cell_earliest)
  qed
  have 4: "query \<noteq> [] \<and> 2 \<le> length (strip query) \<longrightarrow>
             ?out = take limit (first_per_cell ?coll)"
    by (simp add: get_autocomplete_suggestions_def deduplicate_all)
  from 1 2 3 4 all_suggestions_stop [of limit http "strip query" key]
    all_suggestions_stop2 [of limit http "strip query" key]
  show ?thesis by blast
qed

lemma demo_collected:
  "all_suggestions demo_http ''pu'' 3 None =
     [\<lparr>sug_display_name = ''Pune, Maharashtra, India'', sug_name = ''Pune'',
       sug_country = Some ''India'', sug_latitude = 18.52043, sug_longitude = 73.85674,
       sug_source = ''Open-Meteo''\<rparr>,
      \<lparr>sug_display_name = ''Pune City, India'', sug_name = ''Pune City'',
       sug_country = Some ''India'', sug_latitude = 18.5204, sug_longitude = 73.8567,
       sug_source = ''Open-Meteo''\<rparr>,
      \<lparr>sug_display_name = ''Punta Arenas, Chile'', sug_name = ''Punta Arenas'',
       sug_country = Some ''Chile'', sug_latitude = - 53.1638, sug_longitude = - 70.9171,
       sug_source = ''Open-Meteo''\<rparr>]"
  by (simp add: all_suggestions_def Let_def autocomplete_openmeteo_def demo_http_def
      demo_results_def List.map_filter_def openmeteo_suggestion_def)

text \<open>
  Three answers, two of them in one cell, limit 3: the first and the third are returned.
\<close>

theorem autocomplete_deduplication_witness:
  "''pu'' \<noteq> [] \<and> 2 \<le> length (strip ''pu'') \<and>
   get_autocomplete_suggestions demo_http ''pu'' 3 None =
     [\<lparr>sug_display_name = ''Pune, Maharashtra, India'', sug_name = ''Pune'',
       sug_country = Some ''India'', sug_latitude = 18.52043, sug_longitude = 73.85674,
       sug_source = ''Open-Meteo''\<rparr>,
      \<lparr>sug_display_name = ''Punta Arenas, Chile'', sug_name = ''Punta Arenas'',
       sug_country = Some ''Chile'', sug_latitude = - 53.1638, sug_longitude = - 70.9171,
       sug_source = ''Open-Meteo''\<rparr>]"
proof -
  have s: "strip ''pu'' = ''pu''"
    by (simp add: strip_def isspace_def)
  have h: "''pu'' \<noteq> [] \<and> 2 \<le> length (strip ''pu'')"
    by (simp add: s)
  from autocomplete_deduplication [of demo_http "''pu''" 3 None] h
  have "get_autocomplete_suggestions demo_http ''pu'' 3 None =
        take 3 (first_per_cell (all_suggestions demo_http (strip ''pu'') 3 None))"
    by blast
  then show ?thesis
    using h by (simp add: s demo_collected coord_key_def py_round_def round_half_even_def Let_def)
qed


section \<open>Verified properties: blending\<close>

lemma value_at_positional:
  "map fst ml = map fst api \<Longrightarrow> t \<in> fst ` set ml \<Longrightarrow>
   value_at (map (\<lambda>(m, a). (fst m, g (snd m) (snd a))) (zip ml api)) t =
     g (value_at ml t) (value_at api t)"
proof (induction ml arbitrary: api)
  case Nil
  then show ?case by simp
next
  case (Cons m ml)
  from Cons.prems(1) obtain a api' where api: "api = a # api'" "fst a = fst m"
      "map fst ml = map fst api'"
    by (cases api) auto
  show ?case
  proof (cases "t = fst m")
    case True
    with api show ?thesis
      by (cases m, cases a) (simp add: value_at_def)
  next
    case False
    with Cons.prems(2) have "t \<in> fst ` set ml" by auto
    from Cons.IH [OF api(3) this] False api show ?thesis
      by (cases m, cases a) (simp add: value_at_def)
  qed
qed

lemma value_at_tabulate:
  "t \<in> set xs \<Longrightarrow> value_at (map (\<lambda>u. (u, f u)) xs) t = f t"
  by (induction xs) (auto simp: value_at_def)

lemma blend_same_index:
  "map fst ml = map fst api \<Longrightarrow>
   blend_ml_and_api ml api alpha =
     Inr (map (\<lambda>(m, a). (fst m, blend_value alpha (snd m) (snd a))) (zip ml api))"
  by (simp add: blend_ml_and_api_def Let_def)

lemma fst_zip_map:
  "map fst ml = map fst api \<Longrightarrow>
   map fst (map (\<lambda>(m, a). (fst m, g (snd m) (snd a))) (zip ml api)) = map fst ml"
proof (induction ml arbitrary: api)
  case Nil
  then show ?case by simp
next
  case (Cons m ml)
  then show ?case by (cases api) auto
qed

lemma blend_other_index:
  assumes "map fst ml \<noteq> map fst api" and "blend_ml_and_api ml api alpha = Inr out"
  shows "distinct (map fst ml) \<and> distinct (map fst api) \<and>
         out = map (\<lambda>t. (t, blend_value alpha (value_at ml t) (value_at api t)))
                 (sort (filter (\<lambda>t. t \<in> set (map fst api)) (remdups (map fst ml))))"
proof -
  have c: "length (map fst ml) \<noteq> length (map fst api) \<or> map fst ml \<noteq> map fst api"
    using assms(1) by simp
  show ?thesis
    using assms(2) unfolding blend_ml_and_api_def Let_def if_P [OF c]
    by (auto split: if_splits)
qed


lemma blend_returns:
  "(\<exists>out. blend_ml_and_api ml api alpha = Inr out) \<longleftrightarrow>
     (map fst ml = map fst api \<or> distinct (map fst ml) \<and> distinct (map fst api))"
proof (cases "map fst ml = map fst api")
  case True
  then show ?thesis by (simp add: blend_same_index)
next
  case False
  then have c: "length (map fst ml) \<noteq> length (map fst api) \<or> map fst ml \<noteq> map fst api"
    by simp
  show ?thesis
    unfolding blend_ml_and_api_def Let_def if_P [OF c] using False by auto
qed

lemma float_literals:
  "round_float (6 / 10) = float_0_6"
  "round_float (4 / 10) = float_0_4"
  "fsub 1 float_0_6 = float_0_4"
  by (simp_all add: fsub_def round_float_def float_exponent_def exponent_down.simps pow2_def
      round_half_even_def Let_def float_0_6_def float_0_4_def)

text \<open>
  Claim C1, as the code has it. \<^verbatim>\<open>blend_ml_and_api\<close> returns exactly when the two indexes are
  the same or both free of duplicate timestamps. When it returns, the timestamps of the
  result are those common to both inputs, and at each of them the blended value is the
  float result of 0.6 times the model value plus 0.4 times the API value: each product
  and the sum are rounded, the weight is the float that 0.6 denotes and one minus it is
  the float that 0.4 denotes; the value is missing when either input is missing. Blending
  a series with itself returns the same timestamps with the value
  0.6 * x + 0.4 * x in float arithmetic at each, which need not be x.
\<close>

theorem blending_identity:
  "((\<exists>out. blend_ml_and_api ml api alpha = Inr out) \<longleftrightarrow>
      (map fst ml = map fst api \<or> distinct (map fst ml) \<and> distinct (map fst api))) \<and>
   (blend_ml_and_api ml api alpha = Inr out \<longrightarrow>
      set (map fst out) = set (map fst ml) \<inter> set (map fst api) \<and>
      (\<forall>t \<in> set (map fst ml) \<inter> set (map fst api).
         value_at out t = blend_value alpha (value_at ml t) (value_at api t))) \<and>
   (\<forall>x y. blend_value alpha (Some x) (Some y) =
            Some (fadd (fmul alpha x) (fmul (fsub 1 alpha) y))) \<and>
   (\<forall>v. blend_value alpha None v = None \<and> blend_value alpha v None = None) \<and>
   round_float (6 / 10) = float_0_6 \<and> fsub 1 float_0_6 = float_0_4 \<and>
   round_float (4 / 10) = float_0_4 \<and>
   blend_ml_and_api ml ml alpha = Inr (map (\<lambda>(t, v). (t, blend_value alpha v v)) ml)"
proof -
  have 1: "(\<exists>out. blend_ml_and_api ml api alpha = Inr out) \<longleftrightarrow>
      (map fst ml = map fst api \<or> distinct (map fst ml) \<and> distinct (map fst api))"
    by (rule blend_returns)
  have 3: "\<forall>x y. blend_value alpha (Some x) (Some y) =
            Some (fadd (fmul alpha x) (fmul (fsub 1 alpha) y))"
    by (simp add: blend_value_def)
  have 4: "\<forall>v. blend_value alpha None v = None \<and> blend_value alpha v None = None"
  proof
    fix v show "blend_value alpha None v = None \<and> blend_value alpha v None = None"
      by (cases v) (simp_all add: blend_value_def)
  qed
  have "map (\<lambda>(m, a). (fst m, blend_value alpha (snd m) (snd a))) (zip s s) =
        map (\<lambda>(t, v). (t, blend_value alpha v v)) s" for s :: series
    by (induction s) auto
  then have 6: "blend_ml_and_api ml ml alpha =
      Inr (map (\<lambda>(t, v). (t, blend_value alpha v v)) ml)"
    by (simp add: blend_same_index)
  have 2: "set (map fst out) = set (map fst ml) \<inter> set (map fst api) \<and>
      (\<forall>t \<in> set (map fst ml) \<inter> set (map fst api).
         value_at out t = blend_value alpha (value_at ml t) (value_at api t))"
    if r: "blend_ml_and_api ml api alpha = Inr out"
  proof (cases "map fst ml = map fst api")
    case True
    with r have o: "out = map (\<lambda>(m, a). (fst m, blend_value alpha (snd m) (snd a))) (zip ml api)"
      by (simp add: blend_same_index)
    then have "map fst out = map fst ml" using True by (simp only: fst_zip_map)
    with True have s: "set (map fst out) = set (map fst ml) \<inter> set (map fst api)" by simp
    have "value_at out t = blend_value alpha (value_at ml t) (value_at api t)"
      if "t \<in> set (map fst ml) \<inter> set (map fst api)" for t
    proof -
      from that have "t \<in> fst ` set ml" by simp
      from value_at_positional [OF True this] o show ?thesis by simp
    qed
    with s show ?thesis by blast
  next
    case False
    from blend_other_index [OF False r]
    have o: "out = map (\<lambda>t. (t, blend_value alpha (value_at ml t) (value_at api t)))
                 (sort (filter (\<lambda>t. t \<in> set (map fst api)) (remdups (map fst ml))))"
      by simp
    then have "map fst out = sort (filter (\<lambda>t. t \<in> set (map fst api)) (remdups (map fst ml)))"
      by (simp add: comp_def)
    then have s: "set (map fst out) = set (map fst ml) \<inter> set (map fst api)" by auto
    have "value_at out t = blend_value alpha (value_at ml t) (value_at api t)"
      if "t \<in> set (map fst ml) \<inter> set (map fst api)" for t
    proof -
      from that
      have "t \<in> set (sort (filter (\<lambda>t. t \<in> set (map fst api)) (remdups (map fst ml))))"
        by simp
      from value_at_tabulate [OF this] o show ?thesis by simp
    qed
    with s show ?thesis by blast
  qed
  from 1 2 3 4 6 float_literals show ?thesis by blast
qed

lemma blend_20_30: "blend_value float_0_6 (Some 20) (Some 30) = Some 24"
proof -
  have "fmul float_0_6 20 = 12" "fmul float_0_4 30 = 12"
    by (simp_all add: fmul_def round_float_def float_exponent_def exponent_up.simps
      pow2_def round_half_even_def Let_def float_0_6_def float_0_4_def)
  moreover have "fadd 12 12 = 24"
    by (simp add: fadd_def round_float_def float_exponent_def exponent_up.simps
      pow2_def round_half_even_def Let_def)
  ultimately show ?thesis
    by (simp add: blend_value_def float_literals)
qed

text \<open>
  Two series that share the timestamps 2 and 3: the blend at 2 is that of 20 and 30,
  which is 24.
\<close>

theorem blending_identity_witness:
  "blend_ml_and_api [(1, Some 10), (2, Some 20), (3, None)]
       [(2, Some 30), (3, Some 5), (4, Some 1)] float_0_6
     = Inr [(2, Some 24), (3, None)] \<and>
   value_at [(2, Some 24), (3, None)] 2 =
     blend_value float_0_6 (Some 20) (Some 30)"
proof -
  have b: "blend_ml_and_api [(1, Some 10), (2, Some 20), (3, None)]
             [(2, Some 30), (3, Some 5), (4, Some 1)] float_0_6
           = Inr [(2, Some 24), (3, None)]"
    by (simp add: blend_ml_and_api_def Let_def value_at_def blend_20_30)
       (simp add: blend_value_def)
  have m: "2 \<in> set (map fst [(1::int, Some (10::real)), (2, Some 20), (3, None)]) \<inter>
            set (map fst [(2::int, Some (30::real)), (3, Some 5), (4, Some 1)])"
    by simp
  note imp = blending_identity [of "[(1, Some 10), (2, Some 20), (3, None)]"
      "[(2, Some 30), (3, Some 5), (4, Some 1)]" float_0_6 "[(2, Some 24), (3, None)]",
      THEN conjunct2, THEN conjunct1]
  from imp b have "\<forall>t \<in> set (map fst [(1::int, Some (10::real)), (2, Some 20), (3, None)]) \<inter>
            set (map fst [(2::int, Some (30::real)), (3, Some 5), (4, Some 1)]).
           value_at [(2, Some 24), (3, None)] t =
             blend_value float_0_6 (value_at [(1, Some 10), (2, Some 20), (3, None)] t)
               (value_at [(2, Some 30), (3, Some 5), (4, Some 1)] t)"
    by (rule mp [THEN conjunct2])
  from this m have v: "value_at [(2, Some 24), (3, None)] 2 =
        blend_value float_0_6 (value_at [(1, Some 10), (2, Some 20), (3, None)] 2)
          (value_at [(2, Some 30), (3, Some 5), (4, Some 1)] 2)"
    by (rule bspec)
  have "value_at [(1::int, Some (10::real)), (2, Some 20), (3, None)] 2 = Some 20"
       "value_at [(2::int, Some (30::real)), (3, Some 5), (4, Some 1)] 2 = Some 30"
    by (simp_all add: value_at_def)
  with v have "value_at [(2, Some 24), (3, None)] 2 = blend_value float_0_6 (Some 20) (Some 30)"
    by (simp only:)
  with b show ?thesis by (intro conjI)
qed

text \<open>
  A one-point series with the value 31.8 blended with itself does not give 31.8 but the
  float just below it, 31.799999999999997.
\<close>

theorem blending_identity_counterexample:
  "round_float 31.8 = float_31_8 \<and>
   blend_ml_and_api [(0, Some float_31_8)] [(0, Some float_31_8)] float_0_6 =
     Inr [(0, Some (2237726064849715 / 70368744177664))] \<and>
   (2237726064849715 / 70368744177664 :: real) \<noteq> float_31_8"
proof -
  have 1: "round_float 31.8 = float_31_8"
    by (simp add: round_float_def float_exponent_def exponent_up.simps pow2_def
        round_half_even_def Let_def float_31_8_def)
  have m1: "fmul float_0_6 float_31_8 = 1342635638909829 / 70368744177664"
    by (simp add: fmul_def round_float_def float_exponent_def exponent_up.simps pow2_def
        round_half_even_def Let_def float_0_6_def float_31_8_def)
  have m2: "fmul float_0_4 float_31_8 = 7160723407519089 / 562949953421312"
    by (simp add: fmul_def round_float_def float_exponent_def exponent_up.simps pow2_def
        round_half_even_def Let_def float_0_4_def float_31_8_def)
  have a: "fadd (1342635638909829 / 70368744177664) (7160723407519089 / 562949953421312) =
      2237726064849715 / 70368744177664"
    by (simp add: fadd_def round_float_def float_exponent_def exponent_up.simps pow2_def
        round_half_even_def Let_def)
  have v: "blend_value float_0_6 (Some float_31_8) (Some float_31_8) =
        Some (2237726064849715 / 70368744177664)"
    by (simp only: blend_value_def prod.case option.case float_literals m1 m2 a)
  have 2: "blend_ml_and_api [(0, Some float_31_8)] [(0, Some float_31_8)] float_0_6 =
     Inr [(0, Some (2237726064849715 / 70368744177664))]"
    by (simp add: blend_same_index v)
  have 3: "(2237726064849715 / 70368744177664 :: real) \<noteq> float_31_8"
    by (simp add: float_31_8_def)
  from 1 2 3 show ?thesis by (intro conjI)
qed


section \<open>Verified properties: the degradation short-circuit\<close>

text \<open>
  Claim C2, as the code has it. With fewer than 48 clean historical values of the target
  variable, \<^verbatim>\<open>create_ml_forecast_df\<close> does not consult the regression library at all: when
  both frames have rows it returns the time and target columns of the API forecast, row
  for row, and when the historical frame or the forecast frame has no rows it returns
  the empty frame.
\<close>

theorem degradation_short_circuit:
  "length (dropna (column_series target_column historical_df)) < 48 \<longrightarrow>
     create_ml_forecast_df sv historical_df forecast_df target_column =
       (if historical_df = [] \<or> forecast_df = [] then []
        else column_series target_column forecast_df)"
  by (simp add: create_ml_forecast_df_def Let_def)

text \<open>
  One clean historical value and two forecast rows: the two forecast rows come back.
\<close>

theorem degradation_short_circuit_witness:
  "length (dropna (column_series Temperature_2m [temperature_row 0 15])) < 48 \<and>
   create_ml_forecast_df demo_services [temperature_row 0 15]
       [temperature_row 3600 20, temperature_row 7200 21] Temperature_2m =
     [(3600, Some 20), (7200, Some 21)]"
proof -
  have h: "length (dropna (column_series Temperature_2m [temperature_row 0 15])) < 48"
    by (simp add: column_series_def temperature_row_def)
  from degradation_short_circuit [of Temperature_2m "[temperature_row 0 15]" demo_services
      "[temperature_row 3600 20, temperature_row 7200 21]"] h
  have "create_ml_forecast_df demo_services [temperature_row 0 15]
       [temperature_row 3600 20, temperature_row 7200 21] Temperature_2m =
       column_series Temperature_2m [temperature_row 3600 20, temperature_row 7200 21]"
    by simp
  with h show ?thesis by (simp add: column_series_def temperature_row_def)
qed

text \<open>
  No history at all is fewer than 48 clean values, and the result is the empty frame,
  not the forecast row.
\<close>

theorem degradation_short_circuit_counterexample:
  "length (dropna (column_series Temperature_2m [])) < 48 \<and>
   create_ml_forecast_df demo_services [] [temperature_row 3600 20] Temperature_2m = [] \<and>
   column_series Temperature_2m [temperature_row 3600 20] = [(3600, Some 20)]"
  by (simp add: create_ml_forecast_df_def column_series_def temperature_row_def)


end
